theory Spec2Isabelle
  imports Complex_Main
begin

section \<open>Periodic boundary process of g4pbc: the model\<close>

text \<open>
  A shallow embedding of \<^verbatim>\<open>G4PeriodicBoundaryProcess::PostStepDoIt\<close>
  (src/src/G4PeriodicBoundaryProcess.cc, lines 33 to 241) and of the members declared in
  src/include/G4PeriodicBoundaryProcess.hh.

  Conventions of the model:
  \<^item> a \<^verbatim>\<open>G4double\<close> is a real number: the arithmetic of the source is
    read as exact arithmetic, there is no rounding, no NaN and no infinity;
  \<^item> the members the call assigns are fields of a record that is passed in and
    returned; what the call does to its collaborators (exceptions handed to
    \<^verbatim>\<open>G4Exception\<close>, the navigator relocation, the trajectory step, the
    history of the pre-step touchable) is returned beside it;
  \<^item> the collaborators of the Geant4 toolkit (navigator, skin surface table, parallel
    world process, tracking manager) are inputs of the call;
  \<^item> the output on \<^verbatim>\<open>G4cout\<close>, gated by \<^verbatim>\<open>verboseLevel\<close>, has no
    influence on any value and is left out.
\<close>

subsection \<open>Three-vectors\<close>

text \<open>
  \<^verbatim>\<open>G4ThreeVector\<close> is the toolkit's \<^verbatim>\<open>CLHEP::Hep3Vector\<close>. Only the
  operations the process uses are modelled: unary minus, the dot product (the source's
  \<^verbatim>\<open>a * b\<close> on two vectors), scaling by a number, sum, difference, the setters,
  and \<^verbatim>\<open>unit()\<close>, which divides by the magnitude and returns a vector of
  magnitude zero as it is.
\<close>

datatype G4ThreeVector = G4ThreeVector (getX: real) (getY: real) (getZ: real)

definition vneg :: "G4ThreeVector \<Rightarrow> G4ThreeVector" where
  "vneg v = G4ThreeVector (- getX v) (- getY v) (- getZ v)"

definition vdot :: "G4ThreeVector \<Rightarrow> G4ThreeVector \<Rightarrow> real" where
  "vdot a b = getX a * getX b + getY a * getY b + getZ a * getZ b"

definition vscale :: "real \<Rightarrow> G4ThreeVector \<Rightarrow> G4ThreeVector" where
  "vscale c v = G4ThreeVector (c * getX v) (c * getY v) (c * getZ v)"

definition vadd :: "G4ThreeVector \<Rightarrow> G4ThreeVector \<Rightarrow> G4ThreeVector" where
  "vadd a b = G4ThreeVector (getX a + getX b) (getY a + getY b) (getZ a + getZ b)"

definition vsub :: "G4ThreeVector \<Rightarrow> G4ThreeVector \<Rightarrow> G4ThreeVector" where
  "vsub a b = G4ThreeVector (getX a - getX b) (getY a - getY b) (getZ a - getZ b)"

definition setX :: "real \<Rightarrow> G4ThreeVector \<Rightarrow> G4ThreeVector" where
  "setX c v = G4ThreeVector c (getY v) (getZ v)"

definition setY :: "real \<Rightarrow> G4ThreeVector \<Rightarrow> G4ThreeVector" where
  "setY c v = G4ThreeVector (getX v) c (getZ v)"

definition setZ :: "real \<Rightarrow> G4ThreeVector \<Rightarrow> G4ThreeVector" where
  "setZ c v = G4ThreeVector (getX v) (getY v) c"

definition mag2 :: "G4ThreeVector \<Rightarrow> real" where
  "mag2 v = vdot v v"

definition unit :: "G4ThreeVector \<Rightarrow> G4ThreeVector" where
  "unit v = (let tot = mag2 v in if tot > 0 then vscale (1 / sqrt tot) v else v)"

subsection \<open>Data of the toolkit that the call reads\<close>

datatype G4StepStatus =
    fWorldBoundary | fGeomBoundary | fAtRestDoItProc | fAlongStepDoItProc
  | fPostStepDoItProc | fUserDefinedLimit | fExclusivelyForcedProc | fUndefined

datatype G4ExceptionSeverity =
    FatalException | FatalErrorInArgument | RunMustBeAborted | EventMustBeAborted
  | JustWarning

text \<open>
  A logical volume and a skin surface are identified by a name. A physical volume knows
  its logical volume.
\<close>

type_synonym G4LogicalVolume = string

type_synonym G4LogicalSurface = string

record G4VPhysicalVolume =
  GetName :: string
  GetLogicalVolume :: G4LogicalVolume

text \<open>
  \<^verbatim>\<open>G4TouchableHistory\<close>: the volume the point is in and the chain of its
  mothers, the nearest mother first and the world volume last. The world is at depth 0
  of the toolkit's navigation history, so \<^verbatim>\<open>GetHistoryDepth()\<close> is the number of
  mothers; \<^verbatim>\<open>GetVolume()\<close> is the current volume; \<^verbatim>\<open>MoveUpHistory()\<close>
  makes the nearest mother the current volume and does nothing at the world.
\<close>

record G4TouchableHistory =
  currentVolume :: G4VPhysicalVolume
  mothers :: "G4VPhysicalVolume list"

definition GetHistoryDepth :: "G4TouchableHistory \<Rightarrow> nat" where
  "GetHistoryDepth touchable = length (mothers touchable)"

definition GetVolume :: "G4TouchableHistory \<Rightarrow> G4VPhysicalVolume" where
  "GetVolume touchable = currentVolume touchable"

definition MoveUpHistory :: "G4TouchableHistory \<Rightarrow> G4TouchableHistory" where
  "MoveUpHistory touchable =
     (case mothers touchable of
        [] \<Rightarrow> touchable
      | m # ms \<Rightarrow> \<lparr>currentVolume = m, mothers = ms\<rparr>)"

record G4StepPoint =
  GetStepStatus :: G4StepStatus
  GetPosition :: G4ThreeVector
  GetTouchable :: G4TouchableHistory

record G4Step =
  GetPreStepPoint :: G4StepPoint
  GetPostStepPoint :: G4StepPoint

text \<open>
  Of the track the call reads the step length and, through the dynamic particle, the
  momentum direction and the polarization.
\<close>

record G4Track =
  GetStepLength :: real
  GetMomentumDirection :: G4ThreeVector
  GetPolarization :: G4ThreeVector

text \<open>
  The collaborators the call asks: the hyper-step of the parallel world process (absent
  when the pointer is null), the exit normal of the navigator that limited the step
  together with its validity flag, the table of skin surfaces, and whether the tracking
  manager holds a trajectory.
\<close>

record collaborators =
  GetHyperStep :: "G4Step option"
  GetGlobalExitNormal :: "G4ThreeVector \<Rightarrow> G4ThreeVector \<times> bool"
  GetSurface :: "G4LogicalVolume \<Rightarrow> G4LogicalSurface option"
  GimmeTrajectory :: bool

subsection \<open>The particle change\<close>

text \<open>
  Modelled from the spec: \<^verbatim>\<open>G4ParticleChangeForPeriodic\<close>, whose header and
  implementation are not among the sources. The spec describes the result of an
  evaluation as a state-change record of zero or more proposed updates (new momentum
  direction, new polarization, new position); a no-op change proposes nothing.
\<close>

record G4ParticleChangeForPeriodic =
  proposedMomentumDirection :: "G4ThreeVector option"
  proposedPolarization :: "G4ThreeVector option"
  proposedPosition :: "G4ThreeVector option"

definition InitializeForPostStep :: "G4Track \<Rightarrow> G4ParticleChangeForPeriodic" where
  "InitializeForPostStep aTrack =
     \<lparr>proposedMomentumDirection = None, proposedPolarization = None,
      proposedPosition = None\<rparr>"

definition ProposeMomentumDirection ::
  "G4ThreeVector \<Rightarrow> G4ParticleChangeForPeriodic \<Rightarrow> G4ParticleChangeForPeriodic" where
  "ProposeMomentumDirection v pc = pc\<lparr>proposedMomentumDirection := Some v\<rparr>"

definition ProposePolarization ::
  "G4ThreeVector \<Rightarrow> G4ParticleChangeForPeriodic \<Rightarrow> G4ParticleChangeForPeriodic" where
  "ProposePolarization v pc = pc\<lparr>proposedPolarization := Some v\<rparr>"

definition ProposePosition ::
  "G4ThreeVector \<Rightarrow> G4ParticleChangeForPeriodic \<Rightarrow> G4ParticleChangeForPeriodic" where
  "ProposePosition v pc = pc\<lparr>proposedPosition := Some v\<rparr>"

definition noChange :: "G4ParticleChangeForPeriodic \<Rightarrow> bool" where
  "noChange pc \<longleftrightarrow>
     proposedMomentumDirection pc = None \<and> proposedPolarization pc = None \<and>
     proposedPosition pc = None"

subsection \<open>The process object\<close>

datatype G4PeriodicBoundaryProcessStatus =
  Undefined | Reflection | Cycling | StepTooSmall | NotAtBoundary

record G4PeriodicBoundaryProcess =
  fParticleChange :: G4ParticleChangeForPeriodic
  theStatus :: G4PeriodicBoundaryProcessStatus
  OldPosition :: G4ThreeVector
  NewPosition :: G4ThreeVector
  OldMomentum :: G4ThreeVector
  NewMomentum :: G4ThreeVector
  OldPolarization :: G4ThreeVector
  NewPolarization :: G4ThreeVector
  theGlobalNormal :: G4ThreeVector
  kCarTolerance :: real
  reflecting_walls :: bool
  periodic_x :: bool
  periodic_y :: bool
  periodic_z :: bool

text \<open>
  A call of \<^verbatim>\<open>G4Exception\<close>: origin, exception code, severity and comment. With
  severity \<^verbatim>\<open>EventMustBeAborted\<close> the toolkit's handler aborts the event and
  returns, so the statements after the call still run; the model records the call and
  goes on, as the source is written (neither call is followed by a return).
\<close>

datatype G4ExceptionCall = G4Exception string string G4ExceptionSeverity string

definition PerBoun01 :: G4ExceptionCall where
  "PerBoun01 =
     G4Exception ''G4PeriodicBoundaryProcess::PostStepDoIt'' ''PerBoun01''
       EventMustBeAborted
       ''Invalid Surface Normal - Geometry must return valid surface normal''"

definition Periodic01 :: G4ExceptionCall where
  "Periodic01 =
     G4Exception ''G4PeriodicBoundaryProcess::PostStepDoIt'' ''Periodic01''
       EventMustBeAborted
       ''Periodic boundary process must only occur for particle on periodic world surface''"

text \<open>
  What a call leaves behind: the members of the process (with the particle change it
  returns a pointer to), the history of the pre-step touchable, the exceptions raised,
  the points handed to \<^verbatim>\<open>LocateGlobalPointWithinVolume\<close>, the steps appended to
  the trajectory, and every value assigned to \<^verbatim>\<open>theStatus\<close>, in order.
\<close>

record outcome =
  process :: G4PeriodicBoundaryProcess
  preStepTouchable :: G4TouchableHistory
  exceptions :: "G4ExceptionCall list"
  located :: "G4ThreeVector list"
  appended :: "G4Step list"
  statusAssigned :: "G4PeriodicBoundaryProcessStatus list"

definition setStatus :: "G4PeriodicBoundaryProcessStatus \<Rightarrow> outcome \<Rightarrow> outcome" where
  "setStatus s r =
     r\<lparr>process := (process r)\<lparr>theStatus := s\<rparr>,
       statusAssigned := statusAssigned r @ [s]\<rparr>"

definition raise :: "G4ExceptionCall \<Rightarrow> outcome \<Rightarrow> outcome" where
  "raise e r = r\<lparr>exceptions := exceptions r @ [e]\<rparr>"

subsection \<open>PostStepDoIt, block by block\<close>

text \<open>
  Lines 40 to 51: the status is reset, the particle change is initialised, and the
  hyper-step, when there is one, takes the place of the step.
\<close>

definition effectiveStep :: "collaborators \<Rightarrow> G4Step \<Rightarrow> G4Step" where
  "effectiveStep env aStep =
     (case GetHyperStep env of None \<Rightarrow> aStep | Some hStep \<Rightarrow> hStep)"

definition enter ::
  "G4PeriodicBoundaryProcess \<Rightarrow> G4Track \<Rightarrow> G4Step \<Rightarrow> outcome" where
  "enter self aTrack pStep =
     (let r = setStatus Undefined
                \<lparr>process = self, preStepTouchable = GetTouchable (GetPreStepPoint pStep),
                 exceptions = [], located = [], appended = [], statusAssigned = []\<rparr>
      in r\<lparr>process := (process r)\<lparr>fParticleChange := InitializeForPostStep aTrack\<rparr>\<rparr>)"

text \<open>Lines 80 to 83: the current values are stored.\<close>

definition storeCurrentValues :: "G4Track \<Rightarrow> G4Step \<Rightarrow> outcome \<Rightarrow> outcome" where
  "storeCurrentValues aTrack pStep r =
     r\<lparr>process := (process r)
         \<lparr>OldMomentum := GetMomentumDirection aTrack,
          OldPolarization := GetPolarization aTrack,
          OldPosition := GetPosition (GetPostStepPoint pStep),
          NewPosition := GetPosition (GetPostStepPoint pStep)\<rparr>\<rparr>"

text \<open>
  Lines 103 to 128: the exit normal of the navigator is negated when it is valid, an
  exception is raised when it is not, and the result is negated (again) when its dot
  product with the old momentum is positive.
\<close>

definition orientedNormal :: "G4ThreeVector \<Rightarrow> G4ThreeVector \<times> bool \<Rightarrow> G4ThreeVector" where
  "orientedNormal oldMomentum exitNormal =
     (let n = (if snd exitNormal then vneg (fst exitNormal) else fst exitNormal)
      in if vdot oldMomentum n > 0 then vneg n else n)"

definition globalNormal :: "collaborators \<Rightarrow> G4Step \<Rightarrow> outcome \<Rightarrow> outcome" where
  "globalNormal env pStep r =
     (let theGlobalPoint = GetPosition (GetPostStepPoint pStep);
          exitNormal = GetGlobalExitNormal env theGlobalPoint;
          r = (if snd exitNormal then r else raise PerBoun01 r)
      in r\<lparr>process := (process r)
            \<lparr>theGlobalNormal := orientedNormal (OldMomentum (process r)) exitNormal\<rparr>\<rparr>)"

text \<open>
  Lines 140 to 152: the loop over the history of the pre-step touchable. It returns the
  surface it stopped at (none when it ran to the end) and the touchable as the calls of
  \<^verbatim>\<open>MoveUpHistory\<close> left it.
\<close>

function surfaceLoop ::
  "(G4LogicalVolume \<Rightarrow> G4LogicalSurface option) \<Rightarrow> nat \<Rightarrow> nat \<Rightarrow> G4TouchableHistory \<Rightarrow>
   G4LogicalSurface option \<times> G4TouchableHistory" where
  "surfaceLoop getSurface i depth touchable =
     (if i < depth then
        (let lvol = GetLogicalVolume (GetVolume touchable);
             Surface = getSurface lvol
         in if Surface \<noteq> None then (Surface, touchable)
            else surfaceLoop getSurface (Suc i) depth (MoveUpHistory touchable))
      else (None, touchable))"
  by pat_completeness auto
termination
  by (relation "measure (\<lambda>(getSurface, i, depth, touchable). depth - i)") auto

definition findSurface ::
  "collaborators \<Rightarrow> G4TouchableHistory \<Rightarrow> G4LogicalSurface option \<times> G4TouchableHistory" where
  "findSurface env touchable =
     (let depth = GetHistoryDepth touchable
      in surfaceLoop (GetSurface env) 0 depth touchable)"

text \<open>
  Lines 159 to 176: the tests on the normal. Each compares the absolute value of a
  component with 1 by \<^verbatim>\<open>==\<close>; \<^verbatim>\<open>abs\<close> is read as the absolute
  value of the \<^verbatim>\<open>G4double\<close>.
\<close>

definition on_plane :: "G4ThreeVector \<Rightarrow> bool" where
  "on_plane n \<longleftrightarrow> \<bar>getX n\<bar> = 1 \<or> \<bar>getY n\<bar> = 1 \<or> \<bar>getZ n\<bar> = 1"

definition on_x_and_periodic :: "G4PeriodicBoundaryProcess \<Rightarrow> bool" where
  "on_x_and_periodic self \<longleftrightarrow> \<bar>getX (theGlobalNormal self)\<bar> = 1 \<and> periodic_x self"

definition on_y_and_periodic :: "G4PeriodicBoundaryProcess \<Rightarrow> bool" where
  "on_y_and_periodic self \<longleftrightarrow> \<bar>getY (theGlobalNormal self)\<bar> = 1 \<and> periodic_y self"

definition on_z_and_periodic :: "G4PeriodicBoundaryProcess \<Rightarrow> bool" where
  "on_z_and_periodic self \<longleftrightarrow> \<bar>getZ (theGlobalNormal self)\<bar> = 1 \<and> periodic_z self"

definition on_a_periodic_plane :: "G4PeriodicBoundaryProcess \<Rightarrow> bool" where
  "on_a_periodic_plane self \<longleftrightarrow>
     on_x_and_periodic self \<or> on_y_and_periodic self \<or> on_z_and_periodic self"

text \<open>Lines 186 to 202: periodic through specular reflection.\<close>

definition reflect :: "outcome \<Rightarrow> outcome" where
  "reflect r =
     (let self = process r;
          PdotN = vdot (OldMomentum self) (theGlobalNormal self);
          newMomentum = vsub (OldMomentum self) (vscale (2 * PdotN) (theGlobalNormal self));
          EdotN = vdot (OldPolarization self) (theGlobalNormal self);
          newPolarization =
            vadd (vneg (OldPolarization self)) (vscale (2 * EdotN) (theGlobalNormal self));
          r = setStatus Reflection r;
          newMomentum = unit newMomentum;
          newPolarization = unit newPolarization
      in r\<lparr>process := (process r)
            \<lparr>NewMomentum := newMomentum, NewPolarization := newPolarization,
             fParticleChange :=
               ProposePolarization newPolarization
                 (ProposeMomentumDirection newMomentum (fParticleChange (process r)))\<rparr>\<rparr>)"

text \<open>
  Lines 206 to 232: periodic through cycling. The step handed to
  \<^verbatim>\<open>AppendStep\<close> is the step as it is at that moment: the touchable of its
  pre-step point is where the loop of lines 142 to 152 left it.
\<close>

definition translate :: "G4PeriodicBoundaryProcess \<Rightarrow> G4ThreeVector" where
  "translate self =
     (if on_x_and_periodic self then setX (- getX (NewPosition self)) (NewPosition self)
      else if on_y_and_periodic self then setY (- getY (NewPosition self)) (NewPosition self)
      else if on_z_and_periodic self then setZ (- getZ (NewPosition self)) (NewPosition self)
      else NewPosition self)"

definition cycle :: "collaborators \<Rightarrow> G4Step \<Rightarrow> outcome \<Rightarrow> outcome" where
  "cycle env pStep r =
     (let r = setStatus Cycling r;
          newPosition = translate (process r);
          r = r\<lparr>process := (process r)
                \<lparr>NewPosition := newPosition,
                 fParticleChange := ProposePosition newPosition (fParticleChange (process r))\<rparr>\<rparr>;
          r = r\<lparr>located := located r @ [newPosition]\<rparr>
      in if GimmeTrajectory env then
           r\<lparr>appended := appended r @
              [pStep\<lparr>GetPreStepPoint :=
                 (GetPreStepPoint pStep)\<lparr>GetTouchable := preStepTouchable r\<rparr>\<rparr>]\<rparr>
         else r)"

text \<open>Lines 154 to 237: what is done once a surface has been found.\<close>

definition onSurface :: "collaborators \<Rightarrow> G4Step \<Rightarrow> outcome \<Rightarrow> outcome" where
  "onSurface env pStep r =
     (if \<not> on_plane (theGlobalNormal (process r)) then raise Periodic01 r
      else if on_a_periodic_plane (process r) then
        (if reflecting_walls (process r) then reflect r else cycle env pStep r)
      else r)"

text \<open>The whole call.\<close>

definition PostStepDoIt ::
  "G4PeriodicBoundaryProcess \<Rightarrow> collaborators \<Rightarrow> G4Track \<Rightarrow> G4Step \<Rightarrow> outcome" where
  "PostStepDoIt self env aTrack aStep =
     (let pStep = effectiveStep env aStep;
          r = enter self aTrack pStep;
          isOnBoundary = (GetStepStatus (GetPostStepPoint pStep) = fGeomBoundary)
      in if \<not> isOnBoundary then setStatus NotAtBoundary r
         else if GetStepLength aTrack \<le> kCarTolerance self / 2 then setStatus StepTooSmall r
         else
           (let r = storeCurrentValues aTrack pStep r;
                r = globalNormal env pStep r;
                found = findSurface env (preStepTouchable r);
                r = r\<lparr>preStepTouchable := snd found\<rparr>
            in if fst found \<noteq> None then onSurface env pStep r else r))"


text \<open>
  The outcome as it stands when line 154 tests the surface: the blocks of lines 80 to 152
  run on the entered call. It only names a point of \<open>PostStepDoIt\<close> for the lemmas.
\<close>

definition atSurfaceTest ::
  "G4PeriodicBoundaryProcess \<Rightarrow> collaborators \<Rightarrow> G4Track \<Rightarrow> G4Step \<Rightarrow> outcome" where
  "atSurfaceTest self env aTrack aStep =
     (let pStep = effectiveStep env aStep;
          r = storeCurrentValues aTrack pStep (enter self aTrack pStep);
          r = globalNormal env pStep r
      in r\<lparr>preStepTouchable := snd (findSurface env (preStepTouchable r))\<rparr>)"

text \<open>
  Lines 11 to 29: the constructor. The surface tolerance of the geometry is a parameter;
  the vector members start as null vectors and the particle change proposes nothing.
\<close>

definition newProcess ::
  "real \<Rightarrow> bool \<Rightarrow> bool \<Rightarrow> bool \<Rightarrow> bool \<Rightarrow> G4PeriodicBoundaryProcess" where
  "newProcess surfaceTolerance per_x per_y per_z ref_walls =
     \<lparr>fParticleChange =
        \<lparr>proposedMomentumDirection = None, proposedPolarization = None,
         proposedPosition = None\<rparr>,
      theStatus = Undefined,
      OldPosition = G4ThreeVector 0 0 0, NewPosition = G4ThreeVector 0 0 0,
      OldMomentum = G4ThreeVector 0 0 0, NewMomentum = G4ThreeVector 0 0 0,
      OldPolarization = G4ThreeVector 0 0 0, NewPolarization = G4ThreeVector 0 0 0,
      theGlobalNormal = G4ThreeVector 0 0 0,
      kCarTolerance = surfaceTolerance,
      reflecting_walls = ref_walls,
      periodic_x = per_x, periodic_y = per_y, periodic_z = per_z\<rparr>"

subsection \<open>The claims of the specification, in the specification's words\<close>

text \<open>
  The specification calls a normal axis-aligned when exactly one Cartesian component has
  unit magnitude.
\<close>

definition spec_axis_aligned :: "G4ThreeVector \<Rightarrow> bool" where
  "spec_axis_aligned n \<longleftrightarrow>
     (\<bar>getX n\<bar> = 1 \<and> \<bar>getY n\<bar> \<noteq> 1 \<and> \<bar>getZ n\<bar> \<noteq> 1) \<or>
     (\<bar>getX n\<bar> \<noteq> 1 \<and> \<bar>getY n\<bar> = 1 \<and> \<bar>getZ n\<bar> \<noteq> 1) \<or>
     (\<bar>getX n\<bar> \<noteq> 1 \<and> \<bar>getY n\<bar> \<noteq> 1 \<and> \<bar>getZ n\<bar> = 1)"

text \<open>
  The specification orients the normal by negating the one the navigator returned when its
  dot product with the incoming momentum is positive, and keeping it otherwise.
\<close>

definition spec_oriented :: "G4ThreeVector \<Rightarrow> G4ThreeVector \<Rightarrow> G4ThreeVector" where
  "spec_oriented oldMomentum returned =
     (if vdot oldMomentum returned > 0 then vneg returned else returned)"

text \<open>
  The specification's tag lookup walks the chain of the touchable from the innermost
  volume to the world until a tagged volume is found or the chain is exhausted.
\<close>

definition spec_lookup ::
  "(G4LogicalVolume \<Rightarrow> G4LogicalSurface option) \<Rightarrow> G4TouchableHistory \<Rightarrow>
   G4LogicalSurface option" where
  "spec_lookup getSurface touchable =
     (case List.find (\<lambda>v. getSurface (GetLogicalVolume v) \<noteq> None)
             (currentVolume touchable # mothers touchable) of
        None \<Rightarrow> None
      | Some v \<Rightarrow> getSurface (GetLogicalVolume v))"

subsection \<open>A small geometry to run the call on\<close>

text \<open>
  A world volume, a periodic world placed in it, and a daughter placed in the periodic
  world (or directly in the world); skin surface tables that tag the periodic world, the
  world, or nothing; a step whose post-step point lies on a boundary at (5, 2, 3).
\<close>

definition worldPV :: G4VPhysicalVolume where
  "worldPV = \<lparr>GetName = ''World'', GetLogicalVolume = ''WorldLV''\<rparr>"

definition periodicWorldPV :: G4VPhysicalVolume where
  "periodicWorldPV = \<lparr>GetName = ''PeriodicWorld'', GetLogicalVolume = ''PeriodicWorldLV''\<rparr>"

definition daughterPV :: G4VPhysicalVolume where
  "daughterPV = \<lparr>GetName = ''Daughter'', GetLogicalVolume = ''DaughterLV''\<rparr>"

definition skinOnPeriodicWorld :: "G4LogicalVolume \<Rightarrow> G4LogicalSurface option" where
  "skinOnPeriodicWorld lvol = (if lvol = ''PeriodicWorldLV'' then Some ''Skin'' else None)"

definition skinOnWorld :: "G4LogicalVolume \<Rightarrow> G4LogicalSurface option" where
  "skinOnWorld lvol = (if lvol = ''WorldLV'' then Some ''Skin'' else None)"

definition noSkin :: "G4LogicalVolume \<Rightarrow> G4LogicalSurface option" where
  "noSkin lvol = None"

definition inWorld :: G4TouchableHistory where
  "inWorld = \<lparr>currentVolume = worldPV, mothers = []\<rparr>"

definition inPeriodicWorld :: G4TouchableHistory where
  "inPeriodicWorld = \<lparr>currentVolume = periodicWorldPV, mothers = [worldPV]\<rparr>"

definition inDaughter :: G4TouchableHistory where
  "inDaughter = \<lparr>currentVolume = daughterPV, mothers = [periodicWorldPV, worldPV]\<rparr>"

definition daughterInWorld :: G4TouchableHistory where
  "daughterInWorld = \<lparr>currentVolume = daughterPV, mothers = [worldPV]\<rparr>"

definition stepFrom :: "G4TouchableHistory \<Rightarrow> G4StepStatus \<Rightarrow> G4Step" where
  "stepFrom touchable status =
     \<lparr>GetPreStepPoint =
        \<lparr>GetStepStatus = fGeomBoundary, GetPosition = G4ThreeVector 4 2 3,
         GetTouchable = touchable\<rparr>,
      GetPostStepPoint =
        \<lparr>GetStepStatus = status, GetPosition = G4ThreeVector 5 2 3,
         GetTouchable = inWorld\<rparr>\<rparr>"

definition envWith ::
  "G4Step option \<Rightarrow> (G4LogicalVolume \<Rightarrow> G4LogicalSurface option) \<Rightarrow> G4ThreeVector \<Rightarrow> bool \<Rightarrow>
   collaborators" where
  "envWith hStep skin normal valid =
     \<lparr>GetHyperStep = hStep, GetGlobalExitNormal = (\<lambda>point. (normal, valid)),
      GetSurface = skin, GimmeTrajectory = True\<rparr>"

definition trackWith :: "real \<Rightarrow> G4ThreeVector \<Rightarrow> G4ThreeVector \<Rightarrow> G4Track" where
  "trackWith len momentum polarization =
     \<lparr>GetStepLength = len, GetMomentumDirection = momentum,
      GetPolarization = polarization\<rparr>"

section \<open>Properties\<close>

subsection \<open>What each block leaves in the outcome\<close>

lemma setStatus_fields [simp]:
  "process (setStatus s r) = (process r)\<lparr>theStatus := s\<rparr>"
  "preStepTouchable (setStatus s r) = preStepTouchable r"
  "exceptions (setStatus s r) = exceptions r"
  "located (setStatus s r) = located r"
  "appended (setStatus s r) = appended r"
  "statusAssigned (setStatus s r) = statusAssigned r @ [s]"
  by (simp_all add: setStatus_def)

lemma raise_fields [simp]:
  "process (raise e r) = process r"
  "preStepTouchable (raise e r) = preStepTouchable r"
  "exceptions (raise e r) = exceptions r @ [e]"
  "located (raise e r) = located r"
  "appended (raise e r) = appended r"
  "statusAssigned (raise e r) = statusAssigned r"
  by (simp_all add: raise_def)

lemma enter_fields [simp]:
  "process (enter self aTrack pStep) =
     self\<lparr>theStatus := Undefined, fParticleChange := InitializeForPostStep aTrack\<rparr>"
  "preStepTouchable (enter self aTrack pStep) = GetTouchable (GetPreStepPoint pStep)"
  "exceptions (enter self aTrack pStep) = []"
  "located (enter self aTrack pStep) = []"
  "appended (enter self aTrack pStep) = []"
  "statusAssigned (enter self aTrack pStep) = [Undefined]"
  by (simp_all add: enter_def Let_def)

lemma storeCurrentValues_fields [simp]:
  "process (storeCurrentValues aTrack pStep r) =
     (process r)\<lparr>OldMomentum := GetMomentumDirection aTrack,
          OldPolarization := GetPolarization aTrack,
          OldPosition := GetPosition (GetPostStepPoint pStep),
          NewPosition := GetPosition (GetPostStepPoint pStep)\<rparr>"
  "preStepTouchable (storeCurrentValues aTrack pStep r) = preStepTouchable r"
  "exceptions (storeCurrentValues aTrack pStep r) = exceptions r"
  "located (storeCurrentValues aTrack pStep r) = located r"
  "appended (storeCurrentValues aTrack pStep r) = appended r"
  "statusAssigned (storeCurrentValues aTrack pStep r) = statusAssigned r"
  by (simp_all add: storeCurrentValues_def)

lemma globalNormal_fields [simp]:
  "process (globalNormal env pStep r) =
     (process r)\<lparr>theGlobalNormal :=
        orientedNormal (OldMomentum (process r))
          (GetGlobalExitNormal env (GetPosition (GetPostStepPoint pStep)))\<rparr>"
  "preStepTouchable (globalNormal env pStep r) = preStepTouchable r"
  "exceptions (globalNormal env pStep r) =
     (if snd (GetGlobalExitNormal env (GetPosition (GetPostStepPoint pStep))) then exceptions r
      else exceptions r @ [PerBoun01])"
  "located (globalNormal env pStep r) = located r"
  "appended (globalNormal env pStep r) = appended r"
  "statusAssigned (globalNormal env pStep r) = statusAssigned r"
  by (simp_all add: globalNormal_def Let_def)

lemma reflect_fields [simp]:
  "process (reflect r) =
     (process r)\<lparr>theStatus := Reflection,
        NewMomentum := unit (vsub (OldMomentum (process r))
           (vscale (2 * vdot (OldMomentum (process r)) (theGlobalNormal (process r)))
              (theGlobalNormal (process r)))),
        NewPolarization := unit (vadd (vneg (OldPolarization (process r)))
           (vscale (2 * vdot (OldPolarization (process r)) (theGlobalNormal (process r)))
              (theGlobalNormal (process r)))),
        fParticleChange := (fParticleChange (process r))
          \<lparr>proposedMomentumDirection := Some (unit (vsub (OldMomentum (process r))
           (vscale (2 * vdot (OldMomentum (process r)) (theGlobalNormal (process r)))
              (theGlobalNormal (process r))))),
           proposedPolarization := Some (unit (vadd (vneg (OldPolarization (process r)))
           (vscale (2 * vdot (OldPolarization (process r)) (theGlobalNormal (process r)))
              (theGlobalNormal (process r)))))\<rparr>\<rparr>"
  "preStepTouchable (reflect r) = preStepTouchable r"
  "exceptions (reflect r) = exceptions r"
  "located (reflect r) = located r"
  "appended (reflect r) = appended r"
  "statusAssigned (reflect r) = statusAssigned r @ [Reflection]"
  by (simp_all add: reflect_def Let_def ProposeMomentumDirection_def ProposePolarization_def)

lemma translate_setStatus [simp]:
  "translate (self\<lparr>theStatus := s\<rparr>) = translate self"
  by (simp add: translate_def on_x_and_periodic_def on_y_and_periodic_def on_z_and_periodic_def)

lemma cycle_fields [simp]:
  "process (cycle env pStep r) =
     (process r)\<lparr>theStatus := Cycling, NewPosition := translate (process r),
        fParticleChange := (fParticleChange (process r))
          \<lparr>proposedPosition := Some (translate (process r))\<rparr>\<rparr>"
  "preStepTouchable (cycle env pStep r) = preStepTouchable r"
  "exceptions (cycle env pStep r) = exceptions r"
  "located (cycle env pStep r) = located r @ [translate (process r)]"
  "appended (cycle env pStep r) =
     (if GimmeTrajectory env then
        appended r @
          [pStep\<lparr>GetPreStepPoint :=
             (GetPreStepPoint pStep)\<lparr>GetTouchable := preStepTouchable r\<rparr>\<rparr>]
      else appended r)"
  "statusAssigned (cycle env pStep r) = statusAssigned r @ [Cycling]"
  by (simp_all add: cycle_def Let_def ProposePosition_def)

subsection \<open>The branches of the surface block\<close>

lemma on_plane_if_periodic:
  "on_a_periodic_plane self \<Longrightarrow> on_plane (theGlobalNormal self)"
  by (auto simp add: on_a_periodic_plane_def on_plane_def on_x_and_periodic_def
      on_y_and_periodic_def on_z_and_periodic_def)

lemma onSurface_not_on_plane:
  "\<not> on_plane (theGlobalNormal (process r)) \<Longrightarrow> onSurface env pStep r = raise Periodic01 r"
  by (simp add: onSurface_def)

lemma onSurface_reflect:
  "on_a_periodic_plane (process r) \<Longrightarrow> reflecting_walls (process r) \<Longrightarrow>
   onSurface env pStep r = reflect r"
  by (simp add: onSurface_def on_plane_if_periodic)

lemma onSurface_cycle:
  "on_a_periodic_plane (process r) \<Longrightarrow> \<not> reflecting_walls (process r) \<Longrightarrow>
   onSurface env pStep r = cycle env pStep r"
  by (simp add: onSurface_def on_plane_if_periodic)

lemma onSurface_disabled:
  "on_plane (theGlobalNormal (process r)) \<Longrightarrow> \<not> on_a_periodic_plane (process r) \<Longrightarrow>
   onSurface env pStep r = r"
  by (simp add: onSurface_def)

lemma onSurface_cases:
  "onSurface env pStep r = raise Periodic01 r \<or> onSurface env pStep r = reflect r \<or>
   onSurface env pStep r = cycle env pStep r \<or> onSurface env pStep r = r"
  by (simp add: onSurface_def)

lemma onSurface_frame:
  "theGlobalNormal (process (onSurface env pStep r)) = theGlobalNormal (process r)"
  "periodic_x (process (onSurface env pStep r)) = periodic_x (process r)"
  "periodic_y (process (onSurface env pStep r)) = periodic_y (process r)"
  "periodic_z (process (onSurface env pStep r)) = periodic_z (process r)"
  "reflecting_walls (process (onSurface env pStep r)) = reflecting_walls (process r)"
  "preStepTouchable (onSurface env pStep r) = preStepTouchable r"
  using onSurface_cases [of env pStep r] by auto

subsection \<open>The paths through the call\<close>

lemma PostStepDoIt_not_boundary:
  "GetStepStatus (GetPostStepPoint (effectiveStep env aStep)) \<noteq> fGeomBoundary \<Longrightarrow>
   PostStepDoIt self env aTrack aStep =
     setStatus NotAtBoundary (enter self aTrack (effectiveStep env aStep))"
  by (simp add: PostStepDoIt_def Let_def)

lemma PostStepDoIt_too_small:
  "GetStepStatus (GetPostStepPoint (effectiveStep env aStep)) = fGeomBoundary \<Longrightarrow>
   GetStepLength aTrack \<le> kCarTolerance self / 2 \<Longrightarrow>
   PostStepDoIt self env aTrack aStep =
     setStatus StepTooSmall (enter self aTrack (effectiveStep env aStep))"
  by (simp add: PostStepDoIt_def Let_def)

lemma atSurfaceTest_fields [simp]:
  "process (atSurfaceTest self env aTrack aStep) =
     self\<lparr>theStatus := Undefined, fParticleChange := InitializeForPostStep aTrack,
       OldMomentum := GetMomentumDirection aTrack,
       OldPolarization := GetPolarization aTrack,
       OldPosition := GetPosition (GetPostStepPoint (effectiveStep env aStep)),
       NewPosition := GetPosition (GetPostStepPoint (effectiveStep env aStep)),
       theGlobalNormal := orientedNormal (GetMomentumDirection aTrack)
         (GetGlobalExitNormal env (GetPosition (GetPostStepPoint (effectiveStep env aStep))))\<rparr>"
  "preStepTouchable (atSurfaceTest self env aTrack aStep) =
     snd (findSurface env (GetTouchable (GetPreStepPoint (effectiveStep env aStep))))"
  "exceptions (atSurfaceTest self env aTrack aStep) =
     (if snd (GetGlobalExitNormal env (GetPosition (GetPostStepPoint (effectiveStep env aStep))))
      then [] else [PerBoun01])"
  "located (atSurfaceTest self env aTrack aStep) = []"
  "appended (atSurfaceTest self env aTrack aStep) = []"
  "statusAssigned (atSurfaceTest self env aTrack aStep) = [Undefined]"
  by (simp_all add: atSurfaceTest_def Let_def)

lemma PostStepDoIt_found:
  "GetStepStatus (GetPostStepPoint (effectiveStep env aStep)) = fGeomBoundary \<Longrightarrow>
   kCarTolerance self / 2 < GetStepLength aTrack \<Longrightarrow>
   fst (findSurface env (GetTouchable (GetPreStepPoint (effectiveStep env aStep)))) \<noteq> None \<Longrightarrow>
   PostStepDoIt self env aTrack aStep =
     onSurface env (effectiveStep env aStep) (atSurfaceTest self env aTrack aStep)"
  by (simp add: PostStepDoIt_def atSurfaceTest_def Let_def)

lemma PostStepDoIt_not_found:
  "GetStepStatus (GetPostStepPoint (effectiveStep env aStep)) = fGeomBoundary \<Longrightarrow>
   kCarTolerance self / 2 < GetStepLength aTrack \<Longrightarrow>
   fst (findSurface env (GetTouchable (GetPreStepPoint (effectiveStep env aStep)))) = None \<Longrightarrow>
   PostStepDoIt self env aTrack aStep = atSurfaceTest self env aTrack aStep"
  by (simp add: PostStepDoIt_def atSurfaceTest_def Let_def)

lemma PostStepDoIt_theGlobalNormal:
  "GetStepStatus (GetPostStepPoint (effectiveStep env aStep)) = fGeomBoundary \<Longrightarrow>
   kCarTolerance self / 2 < GetStepLength aTrack \<Longrightarrow>
   theGlobalNormal (process (PostStepDoIt self env aTrack aStep)) =
     orientedNormal (GetMomentumDirection aTrack)
       (GetGlobalExitNormal env (GetPosition (GetPostStepPoint (effectiveStep env aStep))))"
  by (cases "fst (findSurface env (GetTouchable (GetPreStepPoint (effectiveStep env aStep)))) = None")
     (simp_all add: PostStepDoIt_found PostStepDoIt_not_found onSurface_frame)

lemma PostStepDoIt_config:
  "periodic_x (process (PostStepDoIt self env aTrack aStep)) = periodic_x self"
  "periodic_y (process (PostStepDoIt self env aTrack aStep)) = periodic_y self"
  "periodic_z (process (PostStepDoIt self env aTrack aStep)) = periodic_z self"
  "reflecting_walls (process (PostStepDoIt self env aTrack aStep)) = reflecting_walls self"
  by (simp_all add: PostStepDoIt_def Let_def onSurface_frame)


lemmas fixture_defs = stepFrom_def envWith_def trackWith_def newProcess_def effectiveStep_def

lemmas geometry_defs = inWorld_def inPeriodicWorld_def inDaughter_def daughterInWorld_def
  worldPV_def periodicWorldPV_def daughterPV_def skinOnPeriodicWorld_def skinOnWorld_def
  noSkin_def

lemmas walk_defs = findSurface_def GetHistoryDepth_def GetVolume_def MoveUpHistory_def

lemmas vector_defs = vneg_def vdot_def vscale_def vadd_def vsub_def mag2_def

section \<open>The claims\<close>

text \<open>
  C6. A step that ended on a geometric boundary and whose length is at most half the
  surface tolerance gets a no-op change (no momentum, polarization or position is
  proposed) and the status StepTooSmall, whatever the skin surface table holds, and no
  exception is raised; the navigator is not relocated and no step is appended to the
  trajectory.
\<close>

theorem C6_step_too_small:
  assumes "GetStepStatus (GetPostStepPoint (effectiveStep env aStep)) = fGeomBoundary"
      and "GetStepLength aTrack \<le> kCarTolerance self / 2"
  shows "noChange (fParticleChange (process (PostStepDoIt self env aTrack aStep))) \<and>
     theStatus (process (PostStepDoIt self env aTrack aStep)) = StepTooSmall \<and>
     exceptions (PostStepDoIt self env aTrack aStep) = [] \<and>
     located (PostStepDoIt self env aTrack aStep) = [] \<and>
     appended (PostStepDoIt self env aTrack aStep) = []"
  using assms by (simp add: PostStepDoIt_too_small noChange_def InitializeForPostStep_def)

text \<open>
  The theorem at a step of exactly half the tolerance that ends on the boundary of the
  tagged periodic world.
\<close>

theorem C6_step_too_small_witness:
  "theStatus (process (PostStepDoIt (newProcess (1 / 10 ^ 9) True True False False)
      (envWith None skinOnPeriodicWorld (G4ThreeVector 1 0 0) True)
      (trackWith (1 / (2 * 10 ^ 9)) (G4ThreeVector 1 0 0) (G4ThreeVector 0 0 0))
      (stepFrom inPeriodicWorld fGeomBoundary))) = StepTooSmall
   \<and> fst (findSurface (envWith None skinOnPeriodicWorld (G4ThreeVector 1 0 0) True)
        inPeriodicWorld) = Some ''Skin''
   \<and> noChange (fParticleChange (process (PostStepDoIt (newProcess (1 / 10 ^ 9) True True False False)
      (envWith None skinOnPeriodicWorld (G4ThreeVector 1 0 0) True)
      (trackWith (1 / (2 * 10 ^ 9)) (G4ThreeVector 1 0 0) (G4ThreeVector 0 0 0))
      (stepFrom inPeriodicWorld fGeomBoundary))))"
proof -
  have b: "GetStepStatus (GetPostStepPoint
      (effectiveStep (envWith None skinOnPeriodicWorld (G4ThreeVector 1 0 0) True)
         (stepFrom inPeriodicWorld fGeomBoundary))) = fGeomBoundary"
    by (simp add: fixture_defs)
  have l: "GetStepLength (trackWith (1 / (2 * 10 ^ 9)) (G4ThreeVector 1 0 0) (G4ThreeVector 0 0 0))
      \<le> kCarTolerance (newProcess (1 / 10 ^ 9) True True False False) / 2"
    by (simp add: fixture_defs)
  have f: "fst (findSurface (envWith None skinOnPeriodicWorld (G4ThreeVector 1 0 0) True)
        inPeriodicWorld) = Some ''Skin''"
    by (simp add: findSurface_def GetHistoryDepth_def GetVolume_def inPeriodicWorld_def
        periodicWorldPV_def skinOnPeriodicWorld_def envWith_def)
  from C6_step_too_small [OF b l] f show ?thesis by simp
qed

text \<open>
  C1. A step that ended on a geometric boundary, longer than half the surface tolerance,
  with a tagged surface found on the chain of the pre-step touchable, a global normal
  whose X component has magnitude 1, periodic X enabled and reflect mode off: the
  proposed position is the old post-step position with X negated and Y and Z as they
  were, no momentum direction and no polarization is proposed, and the status is
  Cycling.
\<close>

theorem C1_wrap_x:
  assumes "GetStepStatus (GetPostStepPoint (effectiveStep env aStep)) = fGeomBoundary"
      and "kCarTolerance self / 2 < GetStepLength aTrack"
      and "fst (findSurface env (GetTouchable (GetPreStepPoint (effectiveStep env aStep)))) \<noteq> None"
      and "\<bar>getX (theGlobalNormal (process (PostStepDoIt self env aTrack aStep)))\<bar> = 1"
      and "periodic_x self"
      and "\<not> reflecting_walls self"
  shows "proposedPosition (fParticleChange (process (PostStepDoIt self env aTrack aStep))) =
           Some (G4ThreeVector
                  (- getX (GetPosition (GetPostStepPoint (effectiveStep env aStep))))
                  (getY (GetPosition (GetPostStepPoint (effectiveStep env aStep))))
                  (getZ (GetPosition (GetPostStepPoint (effectiveStep env aStep)))))
       \<and> proposedMomentumDirection
            (fParticleChange (process (PostStepDoIt self env aTrack aStep))) = None
       \<and> proposedPolarization
            (fParticleChange (process (PostStepDoIt self env aTrack aStep))) = None
       \<and> theStatus (process (PostStepDoIt self env aTrack aStep)) = Cycling"
proof -
  let ?r = "atSurfaceTest self env aTrack aStep"
  have out: "PostStepDoIt self env aTrack aStep = onSurface env (effectiveStep env aStep) ?r"
    by (rule PostStepDoIt_found) fact+
  have x: "on_x_and_periodic (process ?r)"
    using assms(4,5) by (simp add: out onSurface_frame on_x_and_periodic_def)
  have c: "onSurface env (effectiveStep env aStep) ?r = cycle env (effectiveStep env aStep) ?r"
    using x assms(6) by (intro onSurface_cycle) (simp_all add: on_a_periodic_plane_def)
  have t: "translate (process ?r) =
      G4ThreeVector (- getX (GetPosition (GetPostStepPoint (effectiveStep env aStep))))
        (getY (GetPosition (GetPostStepPoint (effectiveStep env aStep))))
        (getZ (GetPosition (GetPostStepPoint (effectiveStep env aStep))))"
    using x by (simp add: translate_def setX_def)
  show ?thesis
    using t by (simp add: out c InitializeForPostStep_def)
qed

text \<open>
  The theorem at a call whose hyper-step ends on the boundary of the tagged periodic
  world at (5, 2, 3), while the step handed in does not end on a boundary.
\<close>

theorem C1_wrap_x_witness:
  "proposedPosition (fParticleChange (process
     (PostStepDoIt (newProcess (1 / 10 ^ 9) True True False False)
        (envWith (Some (stepFrom inPeriodicWorld fGeomBoundary)) skinOnPeriodicWorld
           (G4ThreeVector 1 0 0) True)
        (trackWith 1 (G4ThreeVector 1 0 0) (G4ThreeVector 0 0 0))
        (stepFrom inWorld fPostStepDoItProc)))) = Some (G4ThreeVector (- 5) 2 3)
   \<and> theStatus (process
     (PostStepDoIt (newProcess (1 / 10 ^ 9) True True False False)
        (envWith (Some (stepFrom inPeriodicWorld fGeomBoundary)) skinOnPeriodicWorld
           (G4ThreeVector 1 0 0) True)
        (trackWith 1 (G4ThreeVector 1 0 0) (G4ThreeVector 0 0 0))
        (stepFrom inWorld fPostStepDoItProc))) = Cycling"
proof -
  let ?self = "newProcess (1 / 10 ^ 9) True True False False"
  let ?env = "envWith (Some (stepFrom inPeriodicWorld fGeomBoundary)) skinOnPeriodicWorld
           (G4ThreeVector 1 0 0) True"
  let ?track = "trackWith 1 (G4ThreeVector 1 0 0) (G4ThreeVector 0 0 0)"
  let ?step = "stepFrom inWorld fPostStepDoItProc"
  have h1: "GetStepStatus (GetPostStepPoint (effectiveStep ?env ?step)) = fGeomBoundary"
    by (simp add: fixture_defs)
  have h2: "kCarTolerance ?self / 2 < GetStepLength ?track"
    by (simp add: fixture_defs)
  have h3: "fst (findSurface ?env (GetTouchable (GetPreStepPoint (effectiveStep ?env ?step)))) \<noteq> None"
    by (simp add: fixture_defs walk_defs geometry_defs)
  have h4: "\<bar>getX (theGlobalNormal (process (PostStepDoIt ?self ?env ?track ?step)))\<bar> = 1"
    unfolding PostStepDoIt_theGlobalNormal [OF h1 h2]
    by (simp add: orientedNormal_def vector_defs fixture_defs)
  have h5: "periodic_x ?self" by (simp add: fixture_defs)
  have h6: "\<not> reflecting_walls ?self" by (simp add: fixture_defs)
  from C1_wrap_x [OF h1 h2 h3 h4 h5 h6] show ?thesis
    by (simp add: fixture_defs)
qed


subsection \<open>Reflection keeps a vector at least as long as it was\<close>

lemma mag2_vscale: "mag2 (vscale c v) = c * c * mag2 v"
  by (simp add: vector_defs algebra_simps)

lemma mag2_unit: "0 < mag2 v \<Longrightarrow> mag2 (unit v) = 1"
proof -
  assume pos: "0 < mag2 v"
  then have "sqrt (mag2 v) * sqrt (mag2 v) = mag2 v" by simp
  then have "(1 / sqrt (mag2 v)) * (1 / sqrt (mag2 v)) * mag2 v = 1"
    using pos by (simp add: field_simps)
  then show ?thesis using pos by (simp add: unit_def Let_def mag2_vscale)
qed

lemma on_plane_mag2: "on_plane n \<Longrightarrow> 1 \<le> mag2 n"
proof -
  assume "on_plane n"
  then consider "\<bar>getX n\<bar> = 1" | "\<bar>getY n\<bar> = 1" | "\<bar>getZ n\<bar> = 1"
    by (auto simp add: on_plane_def)
  then show ?thesis
  proof cases
    case 1
    then have "getX n * getX n = 1" by (metis abs_mult_self_eq mult_1)
    then show ?thesis by (simp add: mag2_def vdot_def)
  next
    case 2
    then have "getY n * getY n = 1" by (metis abs_mult_self_eq mult_1)
    then show ?thesis by (simp add: mag2_def vdot_def)
  next
    case 3
    then have "getZ n * getZ n = 1" by (metis abs_mult_self_eq mult_1)
    then show ?thesis by (simp add: mag2_def vdot_def)
  qed
qed

lemma mag2_reflected_momentum:
  assumes "on_plane n"
  shows "mag2 p \<le> mag2 (vsub p (vscale (2 * vdot p n) n))"
proof -
  have "mag2 (vsub p (vscale (2 * vdot p n) n)) =
      mag2 p + 4 * (vdot p n * vdot p n) * (mag2 n - 1)"
    by (simp add: vector_defs algebra_simps)
  moreover have "0 \<le> 4 * (vdot p n * vdot p n) * (mag2 n - 1)"
    using on_plane_mag2 [OF assms] by simp
  ultimately show ?thesis by simp
qed

lemma mag2_reflected_polarization:
  assumes "on_plane n"
  shows "mag2 e \<le> mag2 (vadd (vneg e) (vscale (2 * vdot e n) n))"
proof -
  have "mag2 (vadd (vneg e) (vscale (2 * vdot e n) n)) =
      mag2 e + 4 * (vdot e n * vdot e n) * (mag2 n - 1)"
    by (simp add: vector_defs algebra_simps)
  moreover have "0 \<le> 4 * (vdot e n * vdot e n) * (mag2 n - 1)"
    using on_plane_mag2 [OF assms] by simp
  ultimately show ?thesis by simp
qed


text \<open>
  C2, as amended. A call that reaches the periodic-plane branch with reflect mode on
  proposes the momentum direction \<open>unit (p - 2 (p \<cdot> n) n)\<close> and the polarization
  \<open>unit (- e + 2 (e \<cdot> n) n)\<close>, where \<open>p\<close> and \<open>e\<close> are the old momentum
  direction and polarization and \<open>n\<close> is the global normal; it proposes no position; the
  status is Reflection. The proposed vectors have unit length whenever the old ones are
  not null (\<open>unit\<close> leaves a null vector as it is). For the momentum (-1, 0, 0) on a
  normal along X the proposed momentum direction is (1, 0, 0).
\<close>

theorem C2_reflect:
  assumes "GetStepStatus (GetPostStepPoint (effectiveStep env aStep)) = fGeomBoundary"
      and "kCarTolerance self / 2 < GetStepLength aTrack"
      and "fst (findSurface env (GetTouchable (GetPreStepPoint (effectiveStep env aStep)))) \<noteq> None"
      and "on_a_periodic_plane (process (PostStepDoIt self env aTrack aStep))"
      and "reflecting_walls self"
  shows "proposedMomentumDirection
           (fParticleChange (process (PostStepDoIt self env aTrack aStep))) =
         Some (unit (vsub (GetMomentumDirection aTrack)
           (vscale (2 * vdot (GetMomentumDirection aTrack)
                (theGlobalNormal (process (PostStepDoIt self env aTrack aStep))))
              (theGlobalNormal (process (PostStepDoIt self env aTrack aStep))))))
    \<and> proposedPolarization
           (fParticleChange (process (PostStepDoIt self env aTrack aStep))) =
         Some (unit (vadd (vneg (GetPolarization aTrack))
           (vscale (2 * vdot (GetPolarization aTrack)
                (theGlobalNormal (process (PostStepDoIt self env aTrack aStep))))
              (theGlobalNormal (process (PostStepDoIt self env aTrack aStep))))))
    \<and> proposedPosition (fParticleChange (process (PostStepDoIt self env aTrack aStep))) = None
    \<and> theStatus (process (PostStepDoIt self env aTrack aStep)) = Reflection
    \<and> (0 < mag2 (GetMomentumDirection aTrack) \<longrightarrow>
         mag2 (unit (vsub (GetMomentumDirection aTrack)
           (vscale (2 * vdot (GetMomentumDirection aTrack)
                (theGlobalNormal (process (PostStepDoIt self env aTrack aStep))))
              (theGlobalNormal (process (PostStepDoIt self env aTrack aStep)))))) = 1)
    \<and> (0 < mag2 (GetPolarization aTrack) \<longrightarrow>
         mag2 (unit (vadd (vneg (GetPolarization aTrack))
           (vscale (2 * vdot (GetPolarization aTrack)
                (theGlobalNormal (process (PostStepDoIt self env aTrack aStep))))
              (theGlobalNormal (process (PostStepDoIt self env aTrack aStep)))))) = 1)
    \<and> (GetMomentumDirection aTrack = G4ThreeVector (- 1) 0 0 \<and>
         \<bar>getX (theGlobalNormal (process (PostStepDoIt self env aTrack aStep)))\<bar> = 1 \<and>
         getY (theGlobalNormal (process (PostStepDoIt self env aTrack aStep))) = 0 \<and>
         getZ (theGlobalNormal (process (PostStepDoIt self env aTrack aStep))) = 0 \<longrightarrow>
         proposedMomentumDirection
           (fParticleChange (process (PostStepDoIt self env aTrack aStep))) =
         Some (G4ThreeVector 1 0 0))"
proof -
  let ?r = "atSurfaceTest self env aTrack aStep"
  let ?n = "theGlobalNormal (process (PostStepDoIt self env aTrack aStep))"
  have out: "PostStepDoIt self env aTrack aStep = onSurface env (effectiveStep env aStep) ?r"
    by (rule PostStepDoIt_found) fact+
  have n: "theGlobalNormal (process ?r) = ?n"
    by (simp only: out onSurface_frame)
  have pp: "on_a_periodic_plane (process ?r)"
    using assms(4)
    by (simp add: out onSurface_frame on_a_periodic_plane_def on_x_and_periodic_def
        on_y_and_periodic_def on_z_and_periodic_def)
  have rw: "reflecting_walls (process ?r)" using assms(5) by simp
  have c: "PostStepDoIt self env aTrack aStep = reflect ?r"
    unfolding out using pp rw by (rule onSurface_reflect)
  have n': "theGlobalNormal (process (reflect ?r)) = theGlobalNormal (process ?r)"
    by simp
  have m: "proposedMomentumDirection
           (fParticleChange (process (PostStepDoIt self env aTrack aStep))) =
         Some (unit (vsub (GetMomentumDirection aTrack)
           (vscale (2 * vdot (GetMomentumDirection aTrack) ?n) ?n)))"
    unfolding c n' by simp
  have c1: "proposedPolarization
           (fParticleChange (process (PostStepDoIt self env aTrack aStep))) =
         Some (unit (vadd (vneg (GetPolarization aTrack))
           (vscale (2 * vdot (GetPolarization aTrack) ?n) ?n)))"
    unfolding c n' by simp
  have c2: "proposedPosition (fParticleChange (process (PostStepDoIt self env aTrack aStep))) = None"
    unfolding c by (simp add: InitializeForPostStep_def)
  have c3: "theStatus (process (PostStepDoIt self env aTrack aStep)) = Reflection"
    unfolding c by simp
  have op: "on_plane ?n"
    using on_plane_if_periodic [OF assms(4)] .
  have c4: "0 < mag2 (GetMomentumDirection aTrack) \<longrightarrow>
         mag2 (unit (vsub (GetMomentumDirection aTrack)
           (vscale (2 * vdot (GetMomentumDirection aTrack) ?n) ?n))) = 1"
    using mag2_reflected_momentum [OF op, of "GetMomentumDirection aTrack"]
    by (auto intro!: mag2_unit)
  have c5: "0 < mag2 (GetPolarization aTrack) \<longrightarrow>
         mag2 (unit (vadd (vneg (GetPolarization aTrack))
           (vscale (2 * vdot (GetPolarization aTrack) ?n) ?n))) = 1"
    using mag2_reflected_polarization [OF op, of "GetPolarization aTrack"]
    by (auto intro!: mag2_unit)
  have c6: "GetMomentumDirection aTrack = G4ThreeVector (- 1) 0 0 \<and>
         \<bar>getX ?n\<bar> = 1 \<and> getY ?n = 0 \<and> getZ ?n = 0 \<longrightarrow>
         proposedMomentumDirection
           (fParticleChange (process (PostStepDoIt self env aTrack aStep))) =
         Some (G4ThreeVector 1 0 0)"
  proof
    assume a: "GetMomentumDirection aTrack = G4ThreeVector (- 1) 0 0 \<and>
         \<bar>getX ?n\<bar> = 1 \<and> getY ?n = 0 \<and> getZ ?n = 0"
    then have sq: "getX ?n * getX ?n = 1" by (metis abs_mult_self_eq mult_1)
    have "vsub (GetMomentumDirection aTrack)
           (vscale (2 * vdot (GetMomentumDirection aTrack) ?n) ?n) = G4ThreeVector 1 0 0"
      using a sq by (simp add: vector_defs)
    moreover have "unit (G4ThreeVector 1 0 0) = G4ThreeVector 1 0 0"
      by (simp add: unit_def Let_def vector_defs)
    ultimately show "proposedMomentumDirection
           (fParticleChange (process (PostStepDoIt self env aTrack aStep))) =
         Some (G4ThreeVector 1 0 0)"
      using m by simp
  qed
  from m c1 c2 c3 c4 c5 c6 show ?thesis by (intro conjI)
qed

text \<open>
  The theorem at a particle that flies along -X, polarized along Y, onto the tagged
  periodic world's face.
\<close>

theorem C2_reflect_witness:
  "proposedMomentumDirection (fParticleChange (process
     (PostStepDoIt (newProcess (1 / 10 ^ 9) True True False True)
        (envWith None skinOnPeriodicWorld (G4ThreeVector (- 1) 0 0) True)
        (trackWith 1 (G4ThreeVector (- 1) 0 0) (G4ThreeVector 0 1 0))
        (stepFrom inPeriodicWorld fGeomBoundary)))) = Some (G4ThreeVector 1 0 0)
   \<and> proposedPolarization (fParticleChange (process
     (PostStepDoIt (newProcess (1 / 10 ^ 9) True True False True)
        (envWith None skinOnPeriodicWorld (G4ThreeVector (- 1) 0 0) True)
        (trackWith 1 (G4ThreeVector (- 1) 0 0) (G4ThreeVector 0 1 0))
        (stepFrom inPeriodicWorld fGeomBoundary)))) = Some (G4ThreeVector 0 (- 1) 0)
   \<and> theStatus (process
     (PostStepDoIt (newProcess (1 / 10 ^ 9) True True False True)
        (envWith None skinOnPeriodicWorld (G4ThreeVector (- 1) 0 0) True)
        (trackWith 1 (G4ThreeVector (- 1) 0 0) (G4ThreeVector 0 1 0))
        (stepFrom inPeriodicWorld fGeomBoundary))) = Reflection"
proof -
  let ?self = "newProcess (1 / 10 ^ 9) True True False True"
  let ?env = "envWith None skinOnPeriodicWorld (G4ThreeVector (- 1) 0 0) True"
  let ?track = "trackWith 1 (G4ThreeVector (- 1) 0 0) (G4ThreeVector 0 1 0)"
  let ?step = "stepFrom inPeriodicWorld fGeomBoundary"
  have h1: "GetStepStatus (GetPostStepPoint (effectiveStep ?env ?step)) = fGeomBoundary"
    by (simp add: fixture_defs)
  have h2: "kCarTolerance ?self / 2 < GetStepLength ?track"
    by (simp add: fixture_defs)
  have h3: "fst (findSurface ?env (GetTouchable (GetPreStepPoint (effectiveStep ?env ?step)))) \<noteq> None"
    by (simp add: fixture_defs walk_defs geometry_defs)
  have n: "theGlobalNormal (process (PostStepDoIt ?self ?env ?track ?step)) = G4ThreeVector 1 0 0"
    unfolding PostStepDoIt_theGlobalNormal [OF h1 h2]
    by (simp add: orientedNormal_def vector_defs fixture_defs)
  have h4: "on_a_periodic_plane (process (PostStepDoIt ?self ?env ?track ?step))"
    unfolding on_a_periodic_plane_def on_x_and_periodic_def n PostStepDoIt_config
    by (simp add: fixture_defs)
  have h5: "reflecting_walls ?self" by (simp add: fixture_defs)
  from C2_reflect [OF h1 h2 h3 h4 h5, unfolded n] show ?thesis
    by (simp add: fixture_defs vector_defs unit_def Let_def)
qed

text \<open>The call on the reflecting path.\<close>

lemma PostStepDoIt_reflect:
  assumes "GetStepStatus (GetPostStepPoint (effectiveStep env aStep)) = fGeomBoundary"
      and "kCarTolerance self / 2 < GetStepLength aTrack"
      and "fst (findSurface env (GetTouchable (GetPreStepPoint (effectiveStep env aStep)))) \<noteq> None"
      and "on_a_periodic_plane (process (atSurfaceTest self env aTrack aStep))"
      and "reflecting_walls self"
  shows "PostStepDoIt self env aTrack aStep = reflect (atSurfaceTest self env aTrack aStep)"
proof -
  have "reflecting_walls (process (atSurfaceTest self env aTrack aStep))"
    using assms(5) by simp
  with assms(4) have "onSurface env (effectiveStep env aStep) (atSurfaceTest self env aTrack aStep) =
      reflect (atSurfaceTest self env aTrack aStep)"
    by (rule onSurface_reflect)
  then show ?thesis by (simp only: PostStepDoIt_found [OF assms(1-3)])
qed

text \<open>
  C2 as stated fails at a null polarization, which is what an unpolarized particle
  carries: the reflected polarization is the null vector, \<open>unit\<close> returns it as it
  is, and the proposed polarization has length 0, not 1.
\<close>

theorem C2_null_polarization:
  "GetPolarization (trackWith 1 (G4ThreeVector (- 1) 0 0) (G4ThreeVector 0 0 0)) =
     G4ThreeVector 0 0 0
   \<and> theStatus (process
     (PostStepDoIt (newProcess (1 / 10 ^ 9) True True False True)
        (envWith None skinOnPeriodicWorld (G4ThreeVector (- 1) 0 0) True)
        (trackWith 1 (G4ThreeVector (- 1) 0 0) (G4ThreeVector 0 0 0))
        (stepFrom inPeriodicWorld fGeomBoundary))) = Reflection
   \<and> proposedPolarization (fParticleChange (process
     (PostStepDoIt (newProcess (1 / 10 ^ 9) True True False True)
        (envWith None skinOnPeriodicWorld (G4ThreeVector (- 1) 0 0) True)
        (trackWith 1 (G4ThreeVector (- 1) 0 0) (G4ThreeVector 0 0 0))
        (stepFrom inPeriodicWorld fGeomBoundary)))) = Some (G4ThreeVector 0 0 0)
   \<and> mag2 (G4ThreeVector 0 0 0) = 0"
proof -
  let ?self = "newProcess (1 / 10 ^ 9) True True False True"
  let ?env = "envWith None skinOnPeriodicWorld (G4ThreeVector (- 1) 0 0) True"
  let ?track = "trackWith 1 (G4ThreeVector (- 1) 0 0) (G4ThreeVector 0 0 0)"
  let ?step = "stepFrom inPeriodicWorld fGeomBoundary"
  have h1: "GetStepStatus (GetPostStepPoint (effectiveStep ?env ?step)) = fGeomBoundary"
    by (simp add: fixture_defs)
  have h2: "kCarTolerance ?self / 2 < GetStepLength ?track"
    by (simp add: fixture_defs)
  have h3: "fst (findSurface ?env (GetTouchable (GetPreStepPoint (effectiveStep ?env ?step)))) \<noteq> None"
    by (simp add: fixture_defs walk_defs geometry_defs)
  have h4: "on_a_periodic_plane (process (atSurfaceTest ?self ?env ?track ?step))"
    by (simp add: on_a_periodic_plane_def on_x_and_periodic_def orientedNormal_def
        vector_defs fixture_defs)
  have h5: "reflecting_walls ?self" by (simp add: fixture_defs)
  have a: "GetPolarization ?track = G4ThreeVector 0 0 0" by (simp add: fixture_defs)
  have b: "theStatus (process (PostStepDoIt ?self ?env ?track ?step)) = Reflection"
    unfolding PostStepDoIt_reflect [OF h1 h2 h3 h4 h5] by simp
  have c: "proposedPolarization (fParticleChange (process (PostStepDoIt ?self ?env ?track ?step))) =
      Some (G4ThreeVector 0 0 0)"
    unfolding PostStepDoIt_reflect [OF h1 h2 h3 h4 h5]
    by (simp add: unit_def Let_def orientedNormal_def vector_defs fixture_defs)
  have d: "mag2 (G4ThreeVector 0 0 0) = 0" by (simp add: vector_defs)
  from a b c d show ?thesis by (intro conjI)
qed

text \<open>The chain of tests of lines 213 to 217, on a periodic plane.\<close>

lemma translate_first_axis:
  "on_a_periodic_plane self \<Longrightarrow>
   translate self =
     (if on_x_and_periodic self then
        G4ThreeVector (- getX (NewPosition self)) (getY (NewPosition self))
          (getZ (NewPosition self))
      else if on_y_and_periodic self then
        G4ThreeVector (getX (NewPosition self)) (- getY (NewPosition self))
          (getZ (NewPosition self))
      else
        G4ThreeVector (getX (NewPosition self)) (getY (NewPosition self))
          (- getZ (NewPosition self)))"
  by (auto simp add: translate_def on_a_periodic_plane_def setX_def setY_def setZ_def)

text \<open>
  C8. In wrap mode on a periodic plane, only the first test that matches in the order X,
  Y, Z takes effect: the proposed position is the old post-step position with exactly
  one coordinate negated, that of the first axis on which the normal has magnitude 1 and
  periodicity is enabled; this holds also when the normal has magnitude 1 on two or three
  axes, and the later axes are then ignored.
\<close>

theorem C8_first_axis:
  assumes "GetStepStatus (GetPostStepPoint (effectiveStep env aStep)) = fGeomBoundary"
      and "kCarTolerance self / 2 < GetStepLength aTrack"
      and "fst (findSurface env (GetTouchable (GetPreStepPoint (effectiveStep env aStep)))) \<noteq> None"
      and "on_a_periodic_plane (process (PostStepDoIt self env aTrack aStep))"
      and "\<not> reflecting_walls self"
  shows "proposedPosition (fParticleChange (process (PostStepDoIt self env aTrack aStep))) =
     Some (if on_x_and_periodic (process (PostStepDoIt self env aTrack aStep)) then
             G4ThreeVector
               (- getX (GetPosition (GetPostStepPoint (effectiveStep env aStep))))
               (getY (GetPosition (GetPostStepPoint (effectiveStep env aStep))))
               (getZ (GetPosition (GetPostStepPoint (effectiveStep env aStep))))
           else if on_y_and_periodic (process (PostStepDoIt self env aTrack aStep)) then
             G4ThreeVector
               (getX (GetPosition (GetPostStepPoint (effectiveStep env aStep))))
               (- getY (GetPosition (GetPostStepPoint (effectiveStep env aStep))))
               (getZ (GetPosition (GetPostStepPoint (effectiveStep env aStep))))
           else
             G4ThreeVector
               (getX (GetPosition (GetPostStepPoint (effectiveStep env aStep))))
               (getY (GetPosition (GetPostStepPoint (effectiveStep env aStep))))
               (- getZ (GetPosition (GetPostStepPoint (effectiveStep env aStep)))))
     \<and> theStatus (process (PostStepDoIt self env aTrack aStep)) = Cycling"
proof -
  let ?r = "atSurfaceTest self env aTrack aStep"
  let ?out = "PostStepDoIt self env aTrack aStep"
  have out: "?out = onSurface env (effectiveStep env aStep) ?r"
    by (rule PostStepDoIt_found) fact+
  have x: "on_x_and_periodic (process ?out) = on_x_and_periodic (process ?r)"
    and y: "on_y_and_periodic (process ?out) = on_y_and_periodic (process ?r)"
    and z: "on_z_and_periodic (process ?out) = on_z_and_periodic (process ?r)"
    unfolding on_x_and_periodic_def on_y_and_periodic_def on_z_and_periodic_def
    by (simp_all only: out onSurface_frame)
  have pp: "on_a_periodic_plane (process ?r)"
    using assms(4) by (simp only: on_a_periodic_plane_def x y z)
  have rw: "\<not> reflecting_walls (process ?r)" using assms(5) by simp
  have c: "?out = cycle env (effectiveStep env aStep) ?r"
    unfolding out using pp rw by (rule onSurface_cycle)
  have t: "translate (process ?r) =
     (if on_x_and_periodic (process ?r) then
             G4ThreeVector
               (- getX (GetPosition (GetPostStepPoint (effectiveStep env aStep))))
               (getY (GetPosition (GetPostStepPoint (effectiveStep env aStep))))
               (getZ (GetPosition (GetPostStepPoint (effectiveStep env aStep))))
           else if on_y_and_periodic (process ?r) then
             G4ThreeVector
               (getX (GetPosition (GetPostStepPoint (effectiveStep env aStep))))
               (- getY (GetPosition (GetPostStepPoint (effectiveStep env aStep))))
               (getZ (GetPosition (GetPostStepPoint (effectiveStep env aStep))))
           else
             G4ThreeVector
               (getX (GetPosition (GetPostStepPoint (effectiveStep env aStep))))
               (getY (GetPosition (GetPostStepPoint (effectiveStep env aStep))))
               (- getZ (GetPosition (GetPostStepPoint (effectiveStep env aStep)))))"
    unfolding translate_first_axis [OF pp] by simp
  have p: "proposedPosition (fParticleChange (process ?out)) = Some (translate (process ?r))"
    unfolding c by simp
  have s: "theStatus (process ?out) = Cycling"
    unfolding c by simp
  show ?thesis
    unfolding p s x y z t by simp
qed


text \<open>
  The theorem at a normal with magnitude 1 on all three axes, periodic X disabled,
  periodic Y and Z enabled: only Y is negated.
\<close>

theorem C8_first_axis_witness:
  "on_x_and_periodic (process
     (PostStepDoIt (newProcess (1 / 10 ^ 9) False True True False)
        (envWith None skinOnPeriodicWorld (G4ThreeVector 1 1 1) True)
        (trackWith 1 (G4ThreeVector 1 0 0) (G4ThreeVector 0 0 0))
        (stepFrom inPeriodicWorld fGeomBoundary))) = False
   \<and> on_y_and_periodic (process
     (PostStepDoIt (newProcess (1 / 10 ^ 9) False True True False)
        (envWith None skinOnPeriodicWorld (G4ThreeVector 1 1 1) True)
        (trackWith 1 (G4ThreeVector 1 0 0) (G4ThreeVector 0 0 0))
        (stepFrom inPeriodicWorld fGeomBoundary)))
   \<and> on_z_and_periodic (process
     (PostStepDoIt (newProcess (1 / 10 ^ 9) False True True False)
        (envWith None skinOnPeriodicWorld (G4ThreeVector 1 1 1) True)
        (trackWith 1 (G4ThreeVector 1 0 0) (G4ThreeVector 0 0 0))
        (stepFrom inPeriodicWorld fGeomBoundary)))
   \<and> proposedPosition (fParticleChange (process
     (PostStepDoIt (newProcess (1 / 10 ^ 9) False True True False)
        (envWith None skinOnPeriodicWorld (G4ThreeVector 1 1 1) True)
        (trackWith 1 (G4ThreeVector 1 0 0) (G4ThreeVector 0 0 0))
        (stepFrom inPeriodicWorld fGeomBoundary)))) = Some (G4ThreeVector 5 (- 2) 3)"
proof -
  let ?self = "newProcess (1 / 10 ^ 9) False True True False"
  let ?env = "envWith None skinOnPeriodicWorld (G4ThreeVector 1 1 1) True"
  let ?track = "trackWith 1 (G4ThreeVector 1 0 0) (G4ThreeVector 0 0 0)"
  let ?step = "stepFrom inPeriodicWorld fGeomBoundary"
  have h1: "GetStepStatus (GetPostStepPoint (effectiveStep ?env ?step)) = fGeomBoundary"
    by (simp add: fixture_defs)
  have h2: "kCarTolerance ?self / 2 < GetStepLength ?track"
    by (simp add: fixture_defs)
  have h3: "fst (findSurface ?env (GetTouchable (GetPreStepPoint (effectiveStep ?env ?step)))) \<noteq> None"
    by (simp add: fixture_defs walk_defs geometry_defs)
  have n: "theGlobalNormal (process (PostStepDoIt ?self ?env ?track ?step)) =
      G4ThreeVector (- 1) (- 1) (- 1)"
    unfolding PostStepDoIt_theGlobalNormal [OF h1 h2]
    by (simp add: orientedNormal_def vector_defs fixture_defs)
  have x: "on_x_and_periodic (process (PostStepDoIt ?self ?env ?track ?step)) = False"
    unfolding on_x_and_periodic_def n PostStepDoIt_config by (simp add: fixture_defs)
  have y: "on_y_and_periodic (process (PostStepDoIt ?self ?env ?track ?step)) = True"
    unfolding on_y_and_periodic_def n PostStepDoIt_config by (simp add: fixture_defs)
  have z: "on_z_and_periodic (process (PostStepDoIt ?self ?env ?track ?step)) = True"
    unfolding on_z_and_periodic_def n PostStepDoIt_config by (simp add: fixture_defs)
  have h4: "on_a_periodic_plane (process (PostStepDoIt ?self ?env ?track ?step))"
    unfolding on_a_periodic_plane_def y by simp
  have h5: "\<not> reflecting_walls ?self" by (simp add: fixture_defs)
  from C8_first_axis [OF h1 h2 h3 h4 h5, unfolded x y z] show ?thesis
    unfolding x y z by (simp add: fixture_defs)
qed

text \<open>
  C7, as amended. A call that reaches the axis test (boundary step, long enough, tagged
  surface found) with a normal of magnitude 1 on exactly one axis, whose periodic flag is off, returns a
  no-op change: no position, momentum direction or polarization is proposed, the status
  stays Undefined, the navigator is not relocated. The axis test raises no exception:
  the call carries none when the navigator's normal was valid, and only the one for the
  invalid normal (raised before the test) otherwise.
\<close>

theorem C7_axis_disabled:
  assumes "GetStepStatus (GetPostStepPoint (effectiveStep env aStep)) = fGeomBoundary"
      and "kCarTolerance self / 2 < GetStepLength aTrack"
      and "fst (findSurface env (GetTouchable (GetPreStepPoint (effectiveStep env aStep)))) \<noteq> None"
      and "(\<bar>getX (theGlobalNormal (process (PostStepDoIt self env aTrack aStep)))\<bar> = 1 \<and>
            \<bar>getY (theGlobalNormal (process (PostStepDoIt self env aTrack aStep)))\<bar> \<noteq> 1 \<and>
            \<bar>getZ (theGlobalNormal (process (PostStepDoIt self env aTrack aStep)))\<bar> \<noteq> 1 \<and>
            \<not> periodic_x self) \<or>
           (\<bar>getX (theGlobalNormal (process (PostStepDoIt self env aTrack aStep)))\<bar> \<noteq> 1 \<and>
            \<bar>getY (theGlobalNormal (process (PostStepDoIt self env aTrack aStep)))\<bar> = 1 \<and>
            \<bar>getZ (theGlobalNormal (process (PostStepDoIt self env aTrack aStep)))\<bar> \<noteq> 1 \<and>
            \<not> periodic_y self) \<or>
           (\<bar>getX (theGlobalNormal (process (PostStepDoIt self env aTrack aStep)))\<bar> \<noteq> 1 \<and>
            \<bar>getY (theGlobalNormal (process (PostStepDoIt self env aTrack aStep)))\<bar> \<noteq> 1 \<and>
            \<bar>getZ (theGlobalNormal (process (PostStepDoIt self env aTrack aStep)))\<bar> = 1 \<and>
            \<not> periodic_z self)"
  shows "noChange (fParticleChange (process (PostStepDoIt self env aTrack aStep)))
     \<and> theStatus (process (PostStepDoIt self env aTrack aStep)) = Undefined
     \<and> located (PostStepDoIt self env aTrack aStep) = []
     \<and> appended (PostStepDoIt self env aTrack aStep) = []
     \<and> Periodic01 \<notin> set (exceptions (PostStepDoIt self env aTrack aStep))
     \<and> exceptions (PostStepDoIt self env aTrack aStep) =
         (if snd (GetGlobalExitNormal env
                    (GetPosition (GetPostStepPoint (effectiveStep env aStep))))
          then [] else [PerBoun01])"
proof -
  let ?r = "atSurfaceTest self env aTrack aStep"
  let ?out = "PostStepDoIt self env aTrack aStep"
  have out: "?out = onSurface env (effectiveStep env aStep) ?r"
    by (rule PostStepDoIt_found) fact+
  have n: "theGlobalNormal (process ?out) = theGlobalNormal (process ?r)"
    by (simp only: out onSurface_frame)
  have cfg: "periodic_x (process ?r) = periodic_x self" "periodic_y (process ?r) = periodic_y self"
    "periodic_z (process ?r) = periodic_z self"
    by simp_all
  have op: "on_plane (theGlobalNormal (process ?r))"
    using assms(4) unfolding n on_plane_def by blast
  have np: "\<not> on_a_periodic_plane (process ?r)"
    using assms(4) unfolding n on_a_periodic_plane_def on_x_and_periodic_def
      on_y_and_periodic_def on_z_and_periodic_def cfg by blast
  have c: "?out = ?r"
    unfolding out using op np by (rule onSurface_disabled)
  have ne: "Periodic01 \<noteq> PerBoun01" by (simp add: Periodic01_def PerBoun01_def)
  show ?thesis
    unfolding c using ne by (simp add: noChange_def InitializeForPostStep_def)
qed


text \<open>The theorem at a normal along X on a process whose periodic X is off.\<close>

theorem C7_axis_disabled_witness:
  "noChange (fParticleChange (process
     (PostStepDoIt (newProcess (1 / 10 ^ 9) False True False False)
        (envWith None skinOnPeriodicWorld (G4ThreeVector 1 0 0) True)
        (trackWith 1 (G4ThreeVector 1 0 0) (G4ThreeVector 0 0 0))
        (stepFrom inPeriodicWorld fGeomBoundary))))
   \<and> exceptions
     (PostStepDoIt (newProcess (1 / 10 ^ 9) False True False False)
        (envWith None skinOnPeriodicWorld (G4ThreeVector 1 0 0) True)
        (trackWith 1 (G4ThreeVector 1 0 0) (G4ThreeVector 0 0 0))
        (stepFrom inPeriodicWorld fGeomBoundary)) = []
   \<and> fst (findSurface (envWith None skinOnPeriodicWorld (G4ThreeVector 1 0 0) True)
        inPeriodicWorld) = Some ''Skin''"
proof -
  let ?self = "newProcess (1 / 10 ^ 9) False True False False"
  let ?env = "envWith None skinOnPeriodicWorld (G4ThreeVector 1 0 0) True"
  let ?track = "trackWith 1 (G4ThreeVector 1 0 0) (G4ThreeVector 0 0 0)"
  let ?step = "stepFrom inPeriodicWorld fGeomBoundary"
  have h1: "GetStepStatus (GetPostStepPoint (effectiveStep ?env ?step)) = fGeomBoundary"
    by (simp add: fixture_defs)
  have h2: "kCarTolerance ?self / 2 < GetStepLength ?track"
    by (simp add: fixture_defs)
  have f: "fst (findSurface ?env inPeriodicWorld) = Some ''Skin''"
    by (simp add: fixture_defs walk_defs geometry_defs)
  have h3: "fst (findSurface ?env (GetTouchable (GetPreStepPoint (effectiveStep ?env ?step)))) \<noteq> None"
    by (simp add: fixture_defs walk_defs geometry_defs)
  have n: "theGlobalNormal (process (PostStepDoIt ?self ?env ?track ?step)) =
      G4ThreeVector (- 1) 0 0"
    unfolding PostStepDoIt_theGlobalNormal [OF h1 h2]
    by (simp add: orientedNormal_def vector_defs fixture_defs)
  have h4: "(\<bar>getX (theGlobalNormal (process (PostStepDoIt ?self ?env ?track ?step)))\<bar> = 1 \<and>
            \<bar>getY (theGlobalNormal (process (PostStepDoIt ?self ?env ?track ?step)))\<bar> \<noteq> 1 \<and>
            \<bar>getZ (theGlobalNormal (process (PostStepDoIt ?self ?env ?track ?step)))\<bar> \<noteq> 1 \<and>
            \<not> periodic_x ?self) \<or>
           (\<bar>getX (theGlobalNormal (process (PostStepDoIt ?self ?env ?track ?step)))\<bar> \<noteq> 1 \<and>
            \<bar>getY (theGlobalNormal (process (PostStepDoIt ?self ?env ?track ?step)))\<bar> = 1 \<and>
            \<bar>getZ (theGlobalNormal (process (PostStepDoIt ?self ?env ?track ?step)))\<bar> \<noteq> 1 \<and>
            \<not> periodic_y ?self) \<or>
           (\<bar>getX (theGlobalNormal (process (PostStepDoIt ?self ?env ?track ?step)))\<bar> \<noteq> 1 \<and>
            \<bar>getY (theGlobalNormal (process (PostStepDoIt ?self ?env ?track ?step)))\<bar> \<noteq> 1 \<and>
            \<bar>getZ (theGlobalNormal (process (PostStepDoIt ?self ?env ?track ?step)))\<bar> = 1 \<and>
            \<not> periodic_z ?self)"
    unfolding n by (simp add: fixture_defs)
  from C7_axis_disabled [OF h1 h2 h3 h4] f show ?thesis
    by (simp add: fixture_defs)
qed

text \<open>
  C7 as stated fails when the navigator reports its normal as invalid: the exception
  PerBoun01 is raised at line 112, the call goes on to the axis test with the normal
  (1, 0, 0) on a process whose periodic X is off, and returns the no-op change with that
  exception raised.
\<close>

theorem C7_invalid_normal:
  "\<bar>getX (theGlobalNormal (process
     (PostStepDoIt (newProcess (1 / 10 ^ 9) False True False False)
        (envWith None skinOnPeriodicWorld (G4ThreeVector 1 0 0) False)
        (trackWith 1 (G4ThreeVector 1 0 0) (G4ThreeVector 0 0 0))
        (stepFrom inPeriodicWorld fGeomBoundary))))\<bar> = 1
   \<and> getY (theGlobalNormal (process
     (PostStepDoIt (newProcess (1 / 10 ^ 9) False True False False)
        (envWith None skinOnPeriodicWorld (G4ThreeVector 1 0 0) False)
        (trackWith 1 (G4ThreeVector 1 0 0) (G4ThreeVector 0 0 0))
        (stepFrom inPeriodicWorld fGeomBoundary)))) = 0
   \<and> getZ (theGlobalNormal (process
     (PostStepDoIt (newProcess (1 / 10 ^ 9) False True False False)
        (envWith None skinOnPeriodicWorld (G4ThreeVector 1 0 0) False)
        (trackWith 1 (G4ThreeVector 1 0 0) (G4ThreeVector 0 0 0))
        (stepFrom inPeriodicWorld fGeomBoundary)))) = 0
   \<and> periodic_x (newProcess (1 / 10 ^ 9) False True False False) = False
   \<and> fst (findSurface (envWith None skinOnPeriodicWorld (G4ThreeVector 1 0 0) False)
        inPeriodicWorld) = Some ''Skin''
   \<and> noChange (fParticleChange (process
     (PostStepDoIt (newProcess (1 / 10 ^ 9) False True False False)
        (envWith None skinOnPeriodicWorld (G4ThreeVector 1 0 0) False)
        (trackWith 1 (G4ThreeVector 1 0 0) (G4ThreeVector 0 0 0))
        (stepFrom inPeriodicWorld fGeomBoundary))))
   \<and> exceptions
     (PostStepDoIt (newProcess (1 / 10 ^ 9) False True False False)
        (envWith None skinOnPeriodicWorld (G4ThreeVector 1 0 0) False)
        (trackWith 1 (G4ThreeVector 1 0 0) (G4ThreeVector 0 0 0))
        (stepFrom inPeriodicWorld fGeomBoundary)) = [PerBoun01]"
proof -
  let ?self = "newProcess (1 / 10 ^ 9) False True False False"
  let ?env = "envWith None skinOnPeriodicWorld (G4ThreeVector 1 0 0) False"
  let ?track = "trackWith 1 (G4ThreeVector 1 0 0) (G4ThreeVector 0 0 0)"
  let ?step = "stepFrom inPeriodicWorld fGeomBoundary"
  let ?r = "atSurfaceTest ?self ?env ?track ?step"
  have h1: "GetStepStatus (GetPostStepPoint (effectiveStep ?env ?step)) = fGeomBoundary"
    by (simp add: fixture_defs)
  have h2: "kCarTolerance ?self / 2 < GetStepLength ?track"
    by (simp add: fixture_defs)
  have f: "fst (findSurface ?env inPeriodicWorld) = Some ''Skin''"
    by (simp add: fixture_defs walk_defs geometry_defs)
  have h3: "fst (findSurface ?env (GetTouchable (GetPreStepPoint (effectiveStep ?env ?step)))) \<noteq> None"
    by (simp add: fixture_defs walk_defs geometry_defs)
  have n: "theGlobalNormal (process (PostStepDoIt ?self ?env ?track ?step)) =
      G4ThreeVector (- 1) 0 0"
    unfolding PostStepDoIt_theGlobalNormal [OF h1 h2]
    by (simp add: orientedNormal_def vector_defs fixture_defs)
  have px: "periodic_x ?self = False" by (simp add: fixture_defs)
  have op: "on_plane (theGlobalNormal (process ?r))"
    by (simp add: on_plane_def orientedNormal_def vector_defs fixture_defs)
  have np: "\<not> on_a_periodic_plane (process ?r)"
    by (simp add: on_a_periodic_plane_def on_x_and_periodic_def on_y_and_periodic_def
        on_z_and_periodic_def orientedNormal_def vector_defs fixture_defs)
  have out: "PostStepDoIt ?self ?env ?track ?step = ?r"
    unfolding PostStepDoIt_found [OF h1 h2 h3] using op np by (rule onSurface_disabled)
  have nc: "noChange (fParticleChange (process (PostStepDoIt ?self ?env ?track ?step)))"
    unfolding out by (simp add: noChange_def InitializeForPostStep_def)
  have ex: "exceptions (PostStepDoIt ?self ?env ?track ?step) = [PerBoun01]"
    unfolding out by (simp add: fixture_defs)
  show ?thesis unfolding n using px f nc ex by simp
qed

subsection \<open>The plane test\<close>











text \<open>The call on the cycling path.\<close>

lemma PostStepDoIt_cycle:
  assumes "GetStepStatus (GetPostStepPoint (effectiveStep env aStep)) = fGeomBoundary"
      and "kCarTolerance self / 2 < GetStepLength aTrack"
      and "fst (findSurface env (GetTouchable (GetPreStepPoint (effectiveStep env aStep)))) \<noteq> None"
      and "on_a_periodic_plane (process (atSurfaceTest self env aTrack aStep))"
      and "\<not> reflecting_walls self"
  shows "PostStepDoIt self env aTrack aStep =
     cycle env (effectiveStep env aStep) (atSurfaceTest self env aTrack aStep)"
proof -
  have "\<not> reflecting_walls (process (atSurfaceTest self env aTrack aStep))"
    using assms(5) by simp
  with assms(4) have "onSurface env (effectiveStep env aStep) (atSurfaceTest self env aTrack aStep) =
      cycle env (effectiveStep env aStep) (atSurfaceTest self env aTrack aStep)"
    by (rule onSurface_cycle)
  then show ?thesis by (simp only: PostStepDoIt_found [OF assms(1-3)])
qed

text \<open>
  The plane test does not ask for a normal of unit length: a normal with two components
  of magnitude 1 passes it, and the position is wrapped along X.
\<close>

lemma two_unit_components_accepted:
  "\<not> spec_axis_aligned (theGlobalNormal (process
     (PostStepDoIt (newProcess (1 / 10 ^ 9) True True False False)
        (envWith None skinOnPeriodicWorld (G4ThreeVector 1 1 0) True)
        (trackWith 1 (G4ThreeVector 1 0 0) (G4ThreeVector 0 0 0))
        (stepFrom inPeriodicWorld fGeomBoundary))))
   \<and> fst (findSurface (envWith None skinOnPeriodicWorld (G4ThreeVector 1 1 0) True)
        inPeriodicWorld) = Some ''Skin''
   \<and> exceptions
     (PostStepDoIt (newProcess (1 / 10 ^ 9) True True False False)
        (envWith None skinOnPeriodicWorld (G4ThreeVector 1 1 0) True)
        (trackWith 1 (G4ThreeVector 1 0 0) (G4ThreeVector 0 0 0))
        (stepFrom inPeriodicWorld fGeomBoundary)) = []
   \<and> proposedPosition (fParticleChange (process
     (PostStepDoIt (newProcess (1 / 10 ^ 9) True True False False)
        (envWith None skinOnPeriodicWorld (G4ThreeVector 1 1 0) True)
        (trackWith 1 (G4ThreeVector 1 0 0) (G4ThreeVector 0 0 0))
        (stepFrom inPeriodicWorld fGeomBoundary)))) = Some (G4ThreeVector (- 5) 2 3)"
proof -
  let ?self = "newProcess (1 / 10 ^ 9) True True False False"
  let ?env = "envWith None skinOnPeriodicWorld (G4ThreeVector 1 1 0) True"
  let ?track = "trackWith 1 (G4ThreeVector 1 0 0) (G4ThreeVector 0 0 0)"
  let ?step = "stepFrom inPeriodicWorld fGeomBoundary"
  have h1: "GetStepStatus (GetPostStepPoint (effectiveStep ?env ?step)) = fGeomBoundary"
    by (simp add: fixture_defs)
  have h2: "kCarTolerance ?self / 2 < GetStepLength ?track"
    by (simp add: fixture_defs)
  have f: "fst (findSurface ?env inPeriodicWorld) = Some ''Skin''"
    by (simp add: fixture_defs walk_defs geometry_defs)
  have h3: "fst (findSurface ?env (GetTouchable (GetPreStepPoint (effectiveStep ?env ?step)))) \<noteq> None"
    by (simp add: fixture_defs walk_defs geometry_defs)
  have h4: "on_a_periodic_plane (process (atSurfaceTest ?self ?env ?track ?step))"
    by (simp add: on_a_periodic_plane_def on_x_and_periodic_def orientedNormal_def
        vector_defs fixture_defs)
  have h5: "\<not> reflecting_walls ?self" by (simp add: fixture_defs)
  have n: "theGlobalNormal (process (PostStepDoIt ?self ?env ?track ?step)) =
      G4ThreeVector (- 1) (- 1) 0"
    unfolding PostStepDoIt_theGlobalNormal [OF h1 h2]
    by (simp add: orientedNormal_def vector_defs fixture_defs)
  have a: "\<not> spec_axis_aligned (theGlobalNormal (process (PostStepDoIt ?self ?env ?track ?step)))"
    unfolding n by (simp add: spec_axis_aligned_def)
  have e: "exceptions (PostStepDoIt ?self ?env ?track ?step) = []"
    unfolding PostStepDoIt_cycle [OF h1 h2 h3 h4 h5] by (simp add: fixture_defs)
  have p: "proposedPosition (fParticleChange (process (PostStepDoIt ?self ?env ?track ?step))) =
      Some (G4ThreeVector (- 5) 2 3)"
    unfolding PostStepDoIt_cycle [OF h1 h2 h3 h4 h5]
    by (simp add: translate_def on_x_and_periodic_def orientedNormal_def vector_defs setX_def
        fixture_defs)
  from a f e p show ?thesis by (intro conjI)
qed

subsection \<open>The orientation of the normal\<close>

lemma vdot_vneg: "vdot p (vneg r) = - vdot p r"
  by (simp add: vdot_def vneg_def)

lemma vneg_vneg: "vneg (vneg r) = r"
  by (simp add: vneg_def)

lemma orientedNormal_valid:
  "orientedNormal p (r, True) = (if vdot p r < 0 then r else vneg r)"
  by (simp add: orientedNormal_def Let_def vdot_vneg vneg_vneg)

text \<open>
  C4, as amended. When the navigator returns a valid exit normal \<open>r\<close> (on a boundary
  step that is long enough, so that the navigator is asked), the global normal of all
  later decisions is \<open>r\<close> itself exactly when \<open>r\<close> points against the incoming momentum
  (dot product < 0), and \<open>r\<close> negated otherwise (dot product \<ge> 0); its dot product with
  the old momentum direction is at most 0. It is the normal the specification describes
  whenever the dot product of \<open>r\<close> and the momentum is not 0.
\<close>

theorem C4_oriented_normal:
  assumes "GetStepStatus (GetPostStepPoint (effectiveStep env aStep)) = fGeomBoundary"
      and "kCarTolerance self / 2 < GetStepLength aTrack"
      and "snd (GetGlobalExitNormal env (GetPosition (GetPostStepPoint (effectiveStep env aStep))))"
  shows "theGlobalNormal (process (PostStepDoIt self env aTrack aStep)) =
       (if vdot (GetMomentumDirection aTrack)
             (fst (GetGlobalExitNormal env
                (GetPosition (GetPostStepPoint (effectiveStep env aStep))))) < 0
        then fst (GetGlobalExitNormal env
                (GetPosition (GetPostStepPoint (effectiveStep env aStep))))
        else vneg (fst (GetGlobalExitNormal env
                (GetPosition (GetPostStepPoint (effectiveStep env aStep))))))
     \<and> vdot (GetMomentumDirection aTrack)
          (theGlobalNormal (process (PostStepDoIt self env aTrack aStep))) \<le> 0
     \<and> (vdot (GetMomentumDirection aTrack)
             (fst (GetGlobalExitNormal env
                (GetPosition (GetPostStepPoint (effectiveStep env aStep))))) \<noteq> 0 \<longrightarrow>
         theGlobalNormal (process (PostStepDoIt self env aTrack aStep)) =
         spec_oriented (GetMomentumDirection aTrack)
           (fst (GetGlobalExitNormal env
              (GetPosition (GetPostStepPoint (effectiveStep env aStep))))))"
proof -
  let ?p = "GetMomentumDirection aTrack"
  let ?e = "GetGlobalExitNormal env (GetPosition (GetPostStepPoint (effectiveStep env aStep)))"
  have e: "?e = (fst ?e, True)" using assms(3) by (cases ?e) simp
  have n: "theGlobalNormal (process (PostStepDoIt self env aTrack aStep)) =
      (if vdot ?p (fst ?e) < 0 then fst ?e else vneg (fst ?e))"
    unfolding PostStepDoIt_theGlobalNormal [OF assms(1,2)]
    by (subst e) (rule orientedNormal_valid)
  have d: "vdot ?p (if vdot ?p (fst ?e) < 0 then fst ?e else vneg (fst ?e)) \<le> 0"
    by (simp add: vdot_vneg)
  have s: "vdot ?p (fst ?e) \<noteq> 0 \<longrightarrow>
      (if vdot ?p (fst ?e) < 0 then fst ?e else vneg (fst ?e)) = spec_oriented ?p (fst ?e)"
    by (simp add: spec_oriented_def)
  show ?thesis unfolding n using d s by (intro conjI) simp_all
qed


text \<open>The theorem at a normal returned along the momentum.\<close>

theorem C4_oriented_normal_witness:
  "theGlobalNormal (process
     (PostStepDoIt (newProcess (1 / 10 ^ 9) True True False False)
        (envWith None skinOnPeriodicWorld (G4ThreeVector 1 0 0) True)
        (trackWith 1 (G4ThreeVector 1 0 0) (G4ThreeVector 0 0 0))
        (stepFrom inPeriodicWorld fGeomBoundary))) = G4ThreeVector (- 1) 0 0
   \<and> vdot (G4ThreeVector 1 0 0) (theGlobalNormal (process
     (PostStepDoIt (newProcess (1 / 10 ^ 9) True True False False)
        (envWith None skinOnPeriodicWorld (G4ThreeVector 1 0 0) True)
        (trackWith 1 (G4ThreeVector 1 0 0) (G4ThreeVector 0 0 0))
        (stepFrom inPeriodicWorld fGeomBoundary)))) \<le> 0"
proof -
  let ?self = "newProcess (1 / 10 ^ 9) True True False False"
  let ?env = "envWith None skinOnPeriodicWorld (G4ThreeVector 1 0 0) True"
  let ?track = "trackWith 1 (G4ThreeVector 1 0 0) (G4ThreeVector 0 0 0)"
  let ?step = "stepFrom inPeriodicWorld fGeomBoundary"
  have h1: "GetStepStatus (GetPostStepPoint (effectiveStep ?env ?step)) = fGeomBoundary"
    by (simp add: fixture_defs)
  have h2: "kCarTolerance ?self / 2 < GetStepLength ?track"
    by (simp add: fixture_defs)
  have h3: "snd (GetGlobalExitNormal ?env (GetPosition (GetPostStepPoint (effectiveStep ?env ?step))))"
    by (simp add: fixture_defs)
  from C4_oriented_normal [OF h1 h2 h3] show ?thesis
    by (simp add: fixture_defs vector_defs)
qed

text \<open>
  C4 as stated fails at grazing incidence: for the momentum (0, 1, 0) and the returned
  normal (1, 0, 0) the dot product is 0, not positive, so the specification keeps the
  returned normal, while the call stores its negation (-1, 0, 0).
\<close>

theorem C4_grazing_incidence:
  "vdot (G4ThreeVector 0 1 0) (G4ThreeVector 1 0 0) = 0
   \<and> spec_oriented (G4ThreeVector 0 1 0) (G4ThreeVector 1 0 0) = G4ThreeVector 1 0 0
   \<and> theGlobalNormal (process
     (PostStepDoIt (newProcess (1 / 10 ^ 9) True True False False)
        (envWith None skinOnPeriodicWorld (G4ThreeVector 1 0 0) True)
        (trackWith 1 (G4ThreeVector 0 1 0) (G4ThreeVector 0 0 0))
        (stepFrom inPeriodicWorld fGeomBoundary))) = G4ThreeVector (- 1) 0 0
   \<and> theGlobalNormal (process
     (PostStepDoIt (newProcess (1 / 10 ^ 9) True True False False)
        (envWith None skinOnPeriodicWorld (G4ThreeVector 1 0 0) True)
        (trackWith 1 (G4ThreeVector 0 1 0) (G4ThreeVector 0 0 0))
        (stepFrom inPeriodicWorld fGeomBoundary))) \<noteq>
     spec_oriented (G4ThreeVector 0 1 0) (G4ThreeVector 1 0 0)"
proof -
  let ?self = "newProcess (1 / 10 ^ 9) True True False False"
  let ?env = "envWith None skinOnPeriodicWorld (G4ThreeVector 1 0 0) True"
  let ?track = "trackWith 1 (G4ThreeVector 0 1 0) (G4ThreeVector 0 0 0)"
  let ?step = "stepFrom inPeriodicWorld fGeomBoundary"
  have h1: "GetStepStatus (GetPostStepPoint (effectiveStep ?env ?step)) = fGeomBoundary"
    by (simp add: fixture_defs)
  have h2: "kCarTolerance ?self / 2 < GetStepLength ?track"
    by (simp add: fixture_defs)
  have d: "vdot (G4ThreeVector 0 1 0) (G4ThreeVector 1 0 0) = 0"
    by (simp add: vdot_def)
  have s: "spec_oriented (G4ThreeVector 0 1 0) (G4ThreeVector 1 0 0) = G4ThreeVector 1 0 0"
    by (simp add: spec_oriented_def vdot_def)
  have n: "theGlobalNormal (process (PostStepDoIt ?self ?env ?track ?step)) =
      G4ThreeVector (- 1) 0 0"
    unfolding PostStepDoIt_theGlobalNormal [OF h1 h2]
    by (simp add: orientedNormal_def vector_defs fixture_defs)
  have ne: "theGlobalNormal (process (PostStepDoIt ?self ?env ?track ?step)) \<noteq>
      spec_oriented (G4ThreeVector 0 1 0) (G4ThreeVector 1 0 0)"
    unfolding n s by simp
  from d s n ne show ?thesis by (intro conjI)
qed

subsection \<open>The assignments to the status\<close>

lemma statusAssigned_onSurface:
  "statusAssigned (onSurface env pStep r) = statusAssigned r \<or>
   (\<exists>s. statusAssigned (onSurface env pStep r) = statusAssigned r @ [s])"
  using onSurface_cases [of env pStep r] by auto

lemma theStatus_onSurface:
  "statusAssigned (onSurface env pStep r) = statusAssigned r \<and>
     theStatus (process (onSurface env pStep r)) = theStatus (process r) \<or>
   statusAssigned (onSurface env pStep r) =
     statusAssigned r @ [theStatus (process (onSurface env pStep r))]"
  using onSurface_cases [of env pStep r] by auto

text \<open>
  C10. Every call assigns Undefined to the status first and assigns the status at most
  once more; the status at the return is the value assigned last, one of the five
  values of the enumeration.
\<close>

theorem C10_status_assigned_once:
  "(statusAssigned (PostStepDoIt self env aTrack aStep) = [Undefined] \<or>
    statusAssigned (PostStepDoIt self env aTrack aStep) =
      [Undefined, theStatus (process (PostStepDoIt self env aTrack aStep))])
   \<and> theStatus (process (PostStepDoIt self env aTrack aStep)) =
       last (statusAssigned (PostStepDoIt self env aTrack aStep))
   \<and> theStatus (process (PostStepDoIt self env aTrack aStep)) \<in>
       {Undefined, Reflection, Cycling, StepTooSmall, NotAtBoundary}"
proof -
  let ?out = "PostStepDoIt self env aTrack aStep"
  let ?r = "atSurfaceTest self env aTrack aStep"
  have a: "statusAssigned ?out = [Undefined] \<and> theStatus (process ?out) = Undefined \<or>
      statusAssigned ?out = [Undefined, theStatus (process ?out)]"
  proof (cases "GetStepStatus (GetPostStepPoint (effectiveStep env aStep)) = fGeomBoundary")
    case False
    then show ?thesis by (simp add: PostStepDoIt_not_boundary)
  next
    case b: True
    show ?thesis
    proof (cases "GetStepLength aTrack \<le> kCarTolerance self / 2")
      case True
      with b show ?thesis by (simp add: PostStepDoIt_too_small)
    next
      case False
      then have l: "kCarTolerance self / 2 < GetStepLength aTrack" by simp
      show ?thesis
      proof (cases "fst (findSurface env
          (GetTouchable (GetPreStepPoint (effectiveStep env aStep)))) = None")
        case True
        show ?thesis unfolding PostStepDoIt_not_found [OF b l True] by simp
      next
        case False
        show ?thesis
          unfolding PostStepDoIt_found [OF b l False]
          using theStatus_onSurface [of env "effectiveStep env aStep" ?r] by simp
      qed
    qed
  qed
  have c: "theStatus (process ?out) \<in> {Undefined, Reflection, Cycling, StepTooSmall, NotAtBoundary}"
    by (cases "theStatus (process ?out)") simp_all
  from a have l: "theStatus (process ?out) = last (statusAssigned ?out)" by auto
  from a have f: "statusAssigned ?out = [Undefined] \<or>
    statusAssigned ?out = [Undefined, theStatus (process ?out)]" by blast
  from f l c show ?thesis by (intro conjI)
qed

text \<open>C10 at a wrapping call: the status is assigned Undefined, then Cycling.\<close>

theorem C10_status_assigned_once_witness:
  "statusAssigned
     (PostStepDoIt (newProcess (1 / 10 ^ 9) True True False False)
        (envWith None skinOnPeriodicWorld (G4ThreeVector 1 0 0) True)
        (trackWith 1 (G4ThreeVector 1 0 0) (G4ThreeVector 0 0 0))
        (stepFrom inPeriodicWorld fGeomBoundary)) = [Undefined, Cycling]"
proof -
  let ?self = "newProcess (1 / 10 ^ 9) True True False False"
  let ?env = "envWith None skinOnPeriodicWorld (G4ThreeVector 1 0 0) True"
  let ?track = "trackWith 1 (G4ThreeVector 1 0 0) (G4ThreeVector 0 0 0)"
  let ?step = "stepFrom inPeriodicWorld fGeomBoundary"
  have h1: "GetStepStatus (GetPostStepPoint (effectiveStep ?env ?step)) = fGeomBoundary"
    by (simp add: fixture_defs)
  have h2: "kCarTolerance ?self / 2 < GetStepLength ?track"
    by (simp add: fixture_defs)
  have h3: "fst (findSurface ?env (GetTouchable (GetPreStepPoint (effectiveStep ?env ?step)))) \<noteq> None"
    by (simp add: fixture_defs walk_defs geometry_defs)
  have h4: "on_a_periodic_plane (process (atSurfaceTest ?self ?env ?track ?step))"
    by (simp add: on_a_periodic_plane_def on_x_and_periodic_def orientedNormal_def
        vector_defs fixture_defs)
  have h5: "\<not> reflecting_walls ?self" by (simp add: fixture_defs)
  have s: "theStatus (process (PostStepDoIt ?self ?env ?track ?step)) = Cycling"
    unfolding PostStepDoIt_cycle [OF h1 h2 h3 h4 h5] by simp
  from C10_status_assigned_once [of ?self ?env ?track ?step] show ?thesis
    unfolding s by auto
qed

subsection \<open>The walk over the history of the touchable\<close>

text \<open>
  The loop returns the surface of the first tagged volume among the current volume and
  its mothers, the last entry of the chain (the world) left out: with the depth of the
  history as its bound, the loop runs once per mother.
\<close>

declare surfaceLoop.simps [simp del]

lemma surfaceLoop_fst:
  "depth - i = length (mothers touchable) \<Longrightarrow>
   fst (surfaceLoop getSurface i depth touchable) =
     (case List.find (\<lambda>v. getSurface (GetLogicalVolume v) \<noteq> None)
             (butlast (currentVolume touchable # mothers touchable)) of
        None \<Rightarrow> None
      | Some v \<Rightarrow> getSurface (GetLogicalVolume v))"
proof (induction getSurface i depth touchable rule: surfaceLoop.induct)
  case (1 getSurface i depth touchable)
  show ?case
  proof (cases "i < depth")
    case False
    with "1.prems" have "mothers touchable = []" by simp
    with False show ?thesis by (simp add: surfaceLoop.simps [of getSurface i depth touchable])
  next
    case True
    with "1.prems" obtain m ms where ms: "mothers touchable = m # ms"
      by (cases "mothers touchable") auto
    show ?thesis
    proof (cases "getSurface (GetLogicalVolume (currentVolume touchable)) = None")
      case False
      with True ms show ?thesis
        by (simp add: surfaceLoop.simps [of getSurface i depth touchable] GetVolume_def Let_def)
    next
      case n: True
      have mv: "MoveUpHistory touchable = \<lparr>currentVolume = m, mothers = ms\<rparr>"
        by (simp add: MoveUpHistory_def ms)
      have d: "depth - Suc i = length (mothers (MoveUpHistory touchable))"
        using "1.prems" ms mv by simp
      have ih: "fst (surfaceLoop getSurface (Suc i) depth (MoveUpHistory touchable)) =
        (case List.find (\<lambda>v. getSurface (GetLogicalVolume v) \<noteq> None)
             (butlast (currentVolume (MoveUpHistory touchable) #
                mothers (MoveUpHistory touchable))) of
        None \<Rightarrow> None
      | Some v \<Rightarrow> getSurface (GetLogicalVolume v))"
        using "1.IH" [OF True refl refl _ d] n by (simp add: GetVolume_def)
      have "fst (surfaceLoop getSurface i depth touchable) =
          fst (surfaceLoop getSurface (Suc i) depth (MoveUpHistory touchable))"
        using True n
        by (simp add: surfaceLoop.simps [of getSurface i depth touchable] GetVolume_def Let_def)
      then show ?thesis using ih n by (simp add: mv ms)
    qed
  qed
qed

lemma findSurface_fst:
  "fst (findSurface env touchable) =
     (case List.find (\<lambda>v. GetSurface env (GetLogicalVolume v) \<noteq> None)
             (butlast (currentVolume touchable # mothers touchable)) of
        None \<Rightarrow> None
      | Some v \<Rightarrow> GetSurface env (GetLogicalVolume v))"
  by (simp add: findSurface_def Let_def GetHistoryDepth_def surfaceLoop_fst)


lemma find_snoc:
  "List.find P (ys @ [z]) =
     (case List.find P ys of None \<Rightarrow> (if P z then Some z else None) | Some v \<Rightarrow> Some v)"
  by (induction ys) simp_all

lemma find_butlast:
  assumes "xs \<noteq> []" and "\<not> P (last xs)"
  shows "List.find P (butlast xs) = List.find P xs"
proof -
  have "xs = butlast xs @ [last xs]" using assms(1) by simp
  then have "List.find P xs = List.find P (butlast xs @ [last xs])" by simp
  also have "\<dots> = List.find P (butlast xs)"
    using assms(2) by (simp add: find_snoc split: option.split)
  finally show ?thesis by simp
qed

lemma findSurface_none:
  "(\<forall>v \<in> set (currentVolume touchable # mothers touchable).
      GetSurface env (GetLogicalVolume v) = None) \<Longrightarrow>
   fst (findSurface env touchable) = None"
proof -
  assume a: "\<forall>v \<in> set (currentVolume touchable # mothers touchable).
      GetSurface env (GetLogicalVolume v) = None"
  have "List.find (\<lambda>v. GetSurface env (GetLogicalVolume v) \<noteq> None)
      (butlast (currentVolume touchable # mothers touchable)) = None"
    unfolding find_None_iff using a in_set_butlastD by fastforce
  then show ?thesis by (simp only: findSurface_fst option.case)
qed

lemma findSurface_second:
  assumes "GetSurface env (GetLogicalVolume (currentVolume touchable)) = None"
      and "2 \<le> length (mothers touchable)"
      and "GetSurface env (GetLogicalVolume (hd (mothers touchable))) \<noteq> None"
  shows "fst (findSurface env touchable) =
      GetSurface env (GetLogicalVolume (hd (mothers touchable)))"
proof -
  from assms(2) obtain m m' ms where ms: "mothers touchable = m # m' # ms"
    by (cases "mothers touchable"; cases "tl (mothers touchable)") auto
  show ?thesis using assms(1,3) by (simp add: findSurface_fst ms)
qed

lemma findSurface_spec_lookup:
  assumes "GetSurface env (GetLogicalVolume (last (currentVolume touchable # mothers touchable)))
     = None"
  shows "fst (findSurface env touchable) = spec_lookup (GetSurface env) touchable"
proof -
  have "List.find (\<lambda>v. GetSurface env (GetLogicalVolume v) \<noteq> None)
      (butlast (currentVolume touchable # mothers touchable)) =
    List.find (\<lambda>v. GetSurface env (GetLogicalVolume v) \<noteq> None)
      (currentVolume touchable # mothers touchable)"
    by (rule find_butlast) (use assms in simp_all)
  then show ?thesis by (simp only: findSurface_fst spec_lookup_def)
qed

text \<open>
  Once the lookup has found a surface, the surface block is applied: Periodic01 is
  raised when no component of the normal has magnitude 1; on a periodic plane the
  position is wrapped (reflect mode off) or the momentum direction and the polarization
  are reflected (reflect mode on).
\<close>

lemma found_applied:
  assumes "GetStepStatus (GetPostStepPoint (effectiveStep env aStep)) = fGeomBoundary"
      and "kCarTolerance self / 2 < GetStepLength aTrack"
      and "fst (findSurface env (GetTouchable (GetPreStepPoint (effectiveStep env aStep)))) \<noteq> None"
  shows "(\<not> on_plane (theGlobalNormal (process (PostStepDoIt self env aTrack aStep))) \<longrightarrow>
           Periodic01 \<in> set (exceptions (PostStepDoIt self env aTrack aStep)))
     \<and> (on_a_periodic_plane (process (PostStepDoIt self env aTrack aStep)) \<and>
         \<not> reflecting_walls self \<longrightarrow>
           theStatus (process (PostStepDoIt self env aTrack aStep)) = Cycling \<and>
           proposedPosition (fParticleChange (process (PostStepDoIt self env aTrack aStep))) =
             Some (if on_x_and_periodic (process (PostStepDoIt self env aTrack aStep)) then
                     G4ThreeVector
                       (- getX (GetPosition (GetPostStepPoint (effectiveStep env aStep))))
                       (getY (GetPosition (GetPostStepPoint (effectiveStep env aStep))))
                       (getZ (GetPosition (GetPostStepPoint (effectiveStep env aStep))))
                   else if on_y_and_periodic (process (PostStepDoIt self env aTrack aStep)) then
                     G4ThreeVector
                       (getX (GetPosition (GetPostStepPoint (effectiveStep env aStep))))
                       (- getY (GetPosition (GetPostStepPoint (effectiveStep env aStep))))
                       (getZ (GetPosition (GetPostStepPoint (effectiveStep env aStep))))
                   else
                     G4ThreeVector
                       (getX (GetPosition (GetPostStepPoint (effectiveStep env aStep))))
                       (getY (GetPosition (GetPostStepPoint (effectiveStep env aStep))))
                       (- getZ (GetPosition (GetPostStepPoint (effectiveStep env aStep))))))
     \<and> (on_a_periodic_plane (process (PostStepDoIt self env aTrack aStep)) \<and>
         reflecting_walls self \<longrightarrow>
           theStatus (process (PostStepDoIt self env aTrack aStep)) = Reflection \<and>
           proposedMomentumDirection
             (fParticleChange (process (PostStepDoIt self env aTrack aStep))) =
           Some (unit (vsub (GetMomentumDirection aTrack)
             (vscale (2 * vdot (GetMomentumDirection aTrack)
                  (theGlobalNormal (process (PostStepDoIt self env aTrack aStep))))
                (theGlobalNormal (process (PostStepDoIt self env aTrack aStep)))))) \<and>
           proposedPolarization
             (fParticleChange (process (PostStepDoIt self env aTrack aStep))) =
           Some (unit (vadd (vneg (GetPolarization aTrack))
             (vscale (2 * vdot (GetPolarization aTrack)
                  (theGlobalNormal (process (PostStepDoIt self env aTrack aStep))))
                (theGlobalNormal (process (PostStepDoIt self env aTrack aStep)))))))"
proof -
  let ?r = "atSurfaceTest self env aTrack aStep"
  let ?out = "PostStepDoIt self env aTrack aStep"
  let ?n = "theGlobalNormal (process ?out)"
  have out: "?out = onSurface env (effectiveStep env aStep) ?r"
    by (rule PostStepDoIt_found) fact+
  have n: "theGlobalNormal (process ?r) = ?n"
    by (simp only: out onSurface_frame)
  have x: "on_x_and_periodic (process ?out) = on_x_and_periodic (process ?r)"
    and y: "on_y_and_periodic (process ?out) = on_y_and_periodic (process ?r)"
    and z: "on_z_and_periodic (process ?out) = on_z_and_periodic (process ?r)"
    unfolding on_x_and_periodic_def on_y_and_periodic_def on_z_and_periodic_def
    by (simp_all only: out onSurface_frame)
  have pp: "on_a_periodic_plane (process ?out) = on_a_periodic_plane (process ?r)"
    by (simp only: on_a_periodic_plane_def x y z)
  have a: "\<not> on_plane ?n \<longrightarrow> Periodic01 \<in> set (exceptions ?out)"
  proof
    assume "\<not> on_plane ?n"
    then have "\<not> on_plane (theGlobalNormal (process ?r))" by (simp only: n simp_thms)
    then have "onSurface env (effectiveStep env aStep) ?r = raise Periodic01 ?r"
      by (rule onSurface_not_on_plane)
    then have "?out = raise Periodic01 ?r" by (simp only: out)
    then show "Periodic01 \<in> set (exceptions ?out)" by simp
  qed
  have b: "on_a_periodic_plane (process ?out) \<and> \<not> reflecting_walls self \<longrightarrow>
      theStatus (process ?out) = Cycling \<and>
      proposedPosition (fParticleChange (process ?out)) =
        Some (if on_x_and_periodic (process ?out) then
                G4ThreeVector
                  (- getX (GetPosition (GetPostStepPoint (effectiveStep env aStep))))
                  (getY (GetPosition (GetPostStepPoint (effectiveStep env aStep))))
                  (getZ (GetPosition (GetPostStepPoint (effectiveStep env aStep))))
              else if on_y_and_periodic (process ?out) then
                G4ThreeVector
                  (getX (GetPosition (GetPostStepPoint (effectiveStep env aStep))))
                  (- getY (GetPosition (GetPostStepPoint (effectiveStep env aStep))))
                  (getZ (GetPosition (GetPostStepPoint (effectiveStep env aStep))))
              else
                G4ThreeVector
                  (getX (GetPosition (GetPostStepPoint (effectiveStep env aStep))))
                  (getY (GetPosition (GetPostStepPoint (effectiveStep env aStep))))
                  (- getZ (GetPosition (GetPostStepPoint (effectiveStep env aStep)))))"
  proof
    assume h: "on_a_periodic_plane (process ?out) \<and> \<not> reflecting_walls self"
    then have p: "on_a_periodic_plane (process ?r)" by (simp only: pp)
    from h have w: "\<not> reflecting_walls self" by blast
    have c: "?out = cycle env (effectiveStep env aStep) ?r"
      using assms p w by (rule PostStepDoIt_cycle)
    have t: "translate (process ?r) =
     (if on_x_and_periodic (process ?r) then
             G4ThreeVector
               (- getX (GetPosition (GetPostStepPoint (effectiveStep env aStep))))
               (getY (GetPosition (GetPostStepPoint (effectiveStep env aStep))))
               (getZ (GetPosition (GetPostStepPoint (effectiveStep env aStep))))
           else if on_y_and_periodic (process ?r) then
             G4ThreeVector
               (getX (GetPosition (GetPostStepPoint (effectiveStep env aStep))))
               (- getY (GetPosition (GetPostStepPoint (effectiveStep env aStep))))
               (getZ (GetPosition (GetPostStepPoint (effectiveStep env aStep))))
           else
             G4ThreeVector
               (getX (GetPosition (GetPostStepPoint (effectiveStep env aStep))))
               (getY (GetPosition (GetPostStepPoint (effectiveStep env aStep))))
               (- getZ (GetPosition (GetPostStepPoint (effectiveStep env aStep)))))"
      unfolding translate_first_axis [OF p] by simp
    have q: "proposedPosition (fParticleChange (process ?out)) = Some (translate (process ?r))"
      unfolding c by simp
    have s: "theStatus (process ?out) = Cycling"
      unfolding c by simp
    show "theStatus (process ?out) = Cycling \<and>
      proposedPosition (fParticleChange (process ?out)) =
        Some (if on_x_and_periodic (process ?out) then
                G4ThreeVector
                  (- getX (GetPosition (GetPostStepPoint (effectiveStep env aStep))))
                  (getY (GetPosition (GetPostStepPoint (effectiveStep env aStep))))
                  (getZ (GetPosition (GetPostStepPoint (effectiveStep env aStep))))
              else if on_y_and_periodic (process ?out) then
                G4ThreeVector
                  (getX (GetPosition (GetPostStepPoint (effectiveStep env aStep))))
                  (- getY (GetPosition (GetPostStepPoint (effectiveStep env aStep))))
                  (getZ (GetPosition (GetPostStepPoint (effectiveStep env aStep))))
              else
                G4ThreeVector
                  (getX (GetPosition (GetPostStepPoint (effectiveStep env aStep))))
                  (getY (GetPosition (GetPostStepPoint (effectiveStep env aStep))))
                  (- getZ (GetPosition (GetPostStepPoint (effectiveStep env aStep)))))"
      unfolding q s x y z t by simp
  qed
  have c: "on_a_periodic_plane (process ?out) \<and> reflecting_walls self \<longrightarrow>
      theStatus (process ?out) = Reflection \<and>
      proposedMomentumDirection (fParticleChange (process ?out)) =
        Some (unit (vsub (GetMomentumDirection aTrack)
          (vscale (2 * vdot (GetMomentumDirection aTrack) ?n) ?n))) \<and>
      proposedPolarization (fParticleChange (process ?out)) =
        Some (unit (vadd (vneg (GetPolarization aTrack))
          (vscale (2 * vdot (GetPolarization aTrack) ?n) ?n)))"
  proof
    assume h: "on_a_periodic_plane (process ?out) \<and> reflecting_walls self"
    then have p: "on_a_periodic_plane (process ?r)" by (simp only: pp)
    from h have w: "reflecting_walls self" by blast
    have o: "?out = reflect ?r"
      using assms p w by (rule PostStepDoIt_reflect)
    have n': "theGlobalNormal (process (reflect ?r)) = theGlobalNormal (process ?r)"
      by simp
    have s: "theStatus (process ?out) = Reflection" unfolding o by simp
    have m: "proposedMomentumDirection (fParticleChange (process ?out)) =
        Some (unit (vsub (GetMomentumDirection aTrack)
          (vscale (2 * vdot (GetMomentumDirection aTrack) ?n) ?n)))"
      unfolding o n' by simp
    have e: "proposedPolarization (fParticleChange (process ?out)) =
        Some (unit (vadd (vneg (GetPolarization aTrack))
          (vscale (2 * vdot (GetPolarization aTrack) ?n) ?n)))"
      unfolding o n' by simp
    from s m e show "theStatus (process ?out) = Reflection \<and>
      proposedMomentumDirection (fParticleChange (process ?out)) =
        Some (unit (vsub (GetMomentumDirection aTrack)
          (vscale (2 * vdot (GetMomentumDirection aTrack) ?n) ?n))) \<and>
      proposedPolarization (fParticleChange (process ?out)) =
        Some (unit (vadd (vneg (GetPolarization aTrack))
          (vscale (2 * vdot (GetPolarization aTrack) ?n) ?n)))"
      by (intro conjI)
  qed
  show ?thesis by (rule conjI [OF a conjI [OF b c]])
qed

text \<open>
  C5, as amended. On a boundary step that is long enough, the lookup visits the volumes
  of the pre-step touchable from the innermost outward and stops at the first tagged
  one, but it does not visit the last volume of the chain, the world. When the
  innermost volume is not tagged, its mother is, and the mother is not the world, the
  mother's tag is found. When the world is not tagged, the lookup is the one the
  specification describes. When no volume of the chain is tagged, the call returns a
  no-op change with the status Undefined, and it raises no exception if the navigator's
  normal was valid, and only PerBoun01 (raised before the lookup) if it was not.
  Whenever a tag is found it is applied: Periodic01 is raised when no component of the
  normal has magnitude 1; on a periodic plane the call wraps the position with status
  Cycling (reflect mode off) or reflects momentum direction and polarization with status
  Reflection (reflect mode on).
\<close>

theorem C5_lookup:
  assumes "GetStepStatus (GetPostStepPoint (effectiveStep env aStep)) = fGeomBoundary"
      and "kCarTolerance self / 2 < GetStepLength aTrack"
  shows "fst (findSurface env (GetTouchable (GetPreStepPoint (effectiveStep env aStep)))) =
       (case List.find (\<lambda>v. GetSurface env (GetLogicalVolume v) \<noteq> None)
          (butlast (currentVolume (GetTouchable (GetPreStepPoint (effectiveStep env aStep))) #
                    mothers (GetTouchable (GetPreStepPoint (effectiveStep env aStep))))) of
          None \<Rightarrow> None
        | Some v \<Rightarrow> GetSurface env (GetLogicalVolume v))
     \<and> (GetSurface env (GetLogicalVolume
            (currentVolume (GetTouchable (GetPreStepPoint (effectiveStep env aStep))))) = None \<and>
         2 \<le> length (mothers (GetTouchable (GetPreStepPoint (effectiveStep env aStep)))) \<and>
         GetSurface env (GetLogicalVolume
            (hd (mothers (GetTouchable (GetPreStepPoint (effectiveStep env aStep)))))) \<noteq> None \<longrightarrow>
         fst (findSurface env (GetTouchable (GetPreStepPoint (effectiveStep env aStep)))) =
         GetSurface env (GetLogicalVolume
            (hd (mothers (GetTouchable (GetPreStepPoint (effectiveStep env aStep)))))))
     \<and> (GetSurface env (GetLogicalVolume
            (last (currentVolume (GetTouchable (GetPreStepPoint (effectiveStep env aStep))) #
                   mothers (GetTouchable (GetPreStepPoint (effectiveStep env aStep)))))) = None \<longrightarrow>
         fst (findSurface env (GetTouchable (GetPreStepPoint (effectiveStep env aStep)))) =
         spec_lookup (GetSurface env) (GetTouchable (GetPreStepPoint (effectiveStep env aStep))))
     \<and> ((\<forall>v \<in> set (currentVolume (GetTouchable (GetPreStepPoint (effectiveStep env aStep))) #
                     mothers (GetTouchable (GetPreStepPoint (effectiveStep env aStep)))).
            GetSurface env (GetLogicalVolume v) = None) \<longrightarrow>
         noChange (fParticleChange (process (PostStepDoIt self env aTrack aStep)))
         \<and> theStatus (process (PostStepDoIt self env aTrack aStep)) = Undefined
         \<and> located (PostStepDoIt self env aTrack aStep) = []
         \<and> Periodic01 \<notin> set (exceptions (PostStepDoIt self env aTrack aStep))
         \<and> exceptions (PostStepDoIt self env aTrack aStep) =
             (if snd (GetGlobalExitNormal env
                        (GetPosition (GetPostStepPoint (effectiveStep env aStep))))
              then [] else [PerBoun01]))
     \<and> (fst (findSurface env (GetTouchable (GetPreStepPoint (effectiveStep env aStep)))) \<noteq> None \<longrightarrow>
         (\<not> on_plane (theGlobalNormal (process (PostStepDoIt self env aTrack aStep))) \<longrightarrow>
               Periodic01 \<in> set (exceptions (PostStepDoIt self env aTrack aStep)))
         \<and> (on_a_periodic_plane (process (PostStepDoIt self env aTrack aStep)) \<and>
             \<not> reflecting_walls self \<longrightarrow>
               theStatus (process (PostStepDoIt self env aTrack aStep)) = Cycling \<and>
               proposedPosition (fParticleChange (process (PostStepDoIt self env aTrack aStep))) =
                 Some (if on_x_and_periodic (process (PostStepDoIt self env aTrack aStep)) then
                         G4ThreeVector
                           (- getX (GetPosition (GetPostStepPoint (effectiveStep env aStep))))
                           (getY (GetPosition (GetPostStepPoint (effectiveStep env aStep))))
                           (getZ (GetPosition (GetPostStepPoint (effectiveStep env aStep))))
                       else if on_y_and_periodic (process (PostStepDoIt self env aTrack aStep)) then
                         G4ThreeVector
                           (getX (GetPosition (GetPostStepPoint (effectiveStep env aStep))))
                           (- getY (GetPosition (GetPostStepPoint (effectiveStep env aStep))))
                           (getZ (GetPosition (GetPostStepPoint (effectiveStep env aStep))))
                       else
                         G4ThreeVector
                           (getX (GetPosition (GetPostStepPoint (effectiveStep env aStep))))
                           (getY (GetPosition (GetPostStepPoint (effectiveStep env aStep))))
                           (- getZ (GetPosition (GetPostStepPoint (effectiveStep env aStep))))))
         \<and> (on_a_periodic_plane (process (PostStepDoIt self env aTrack aStep)) \<and>
             reflecting_walls self \<longrightarrow>
               theStatus (process (PostStepDoIt self env aTrack aStep)) = Reflection \<and>
               proposedMomentumDirection
                 (fParticleChange (process (PostStepDoIt self env aTrack aStep))) =
               Some (unit (vsub (GetMomentumDirection aTrack)
                 (vscale (2 * vdot (GetMomentumDirection aTrack)
                      (theGlobalNormal (process (PostStepDoIt self env aTrack aStep))))
                    (theGlobalNormal (process (PostStepDoIt self env aTrack aStep)))))) \<and>
               proposedPolarization
                 (fParticleChange (process (PostStepDoIt self env aTrack aStep))) =
               Some (unit (vadd (vneg (GetPolarization aTrack))
                 (vscale (2 * vdot (GetPolarization aTrack)
                      (theGlobalNormal (process (PostStepDoIt self env aTrack aStep))))
                    (theGlobalNormal (process (PostStepDoIt self env aTrack aStep))))))))"
proof -
  let ?t = "GetTouchable (GetPreStepPoint (effectiveStep env aStep))"
  let ?out = "PostStepDoIt self env aTrack aStep"
  have a: "fst (findSurface env ?t) =
       (case List.find (\<lambda>v. GetSurface env (GetLogicalVolume v) \<noteq> None)
          (butlast (currentVolume ?t # mothers ?t)) of
          None \<Rightarrow> None
        | Some v \<Rightarrow> GetSurface env (GetLogicalVolume v))"
    by (rule findSurface_fst)
  have b: "GetSurface env (GetLogicalVolume (currentVolume ?t)) = None \<and>
         2 \<le> length (mothers ?t) \<and>
         GetSurface env (GetLogicalVolume (hd (mothers ?t))) \<noteq> None \<longrightarrow>
         fst (findSurface env ?t) = GetSurface env (GetLogicalVolume (hd (mothers ?t)))"
    using findSurface_second [of env ?t] by blast
  have c: "GetSurface env (GetLogicalVolume (last (currentVolume ?t # mothers ?t))) = None \<longrightarrow>
         fst (findSurface env ?t) = spec_lookup (GetSurface env) ?t"
    using findSurface_spec_lookup [of env ?t] by blast
  have d: "(\<forall>v \<in> set (currentVolume ?t # mothers ?t).
            GetSurface env (GetLogicalVolume v) = None) \<longrightarrow>
         noChange (fParticleChange (process ?out))
         \<and> theStatus (process ?out) = Undefined
         \<and> located ?out = []
         \<and> Periodic01 \<notin> set (exceptions ?out)
         \<and> exceptions ?out =
             (if snd (GetGlobalExitNormal env
                        (GetPosition (GetPostStepPoint (effectiveStep env aStep))))
              then [] else [PerBoun01])"
  proof
    assume "\<forall>v \<in> set (currentVolume ?t # mothers ?t). GetSurface env (GetLogicalVolume v) = None"
    then have n: "fst (findSurface env ?t) = None" by (rule findSurface_none)
    have ne: "Periodic01 \<noteq> PerBoun01" by (simp add: Periodic01_def PerBoun01_def)
    show "noChange (fParticleChange (process ?out))
         \<and> theStatus (process ?out) = Undefined
         \<and> located ?out = []
         \<and> Periodic01 \<notin> set (exceptions ?out)
         \<and> exceptions ?out =
             (if snd (GetGlobalExitNormal env
                        (GetPosition (GetPostStepPoint (effectiveStep env aStep))))
              then [] else [PerBoun01])"
      unfolding PostStepDoIt_not_found [OF assms n] using ne
      by (simp add: noChange_def InitializeForPostStep_def)
  qed
  have e: "fst (findSurface env ?t) \<noteq> None \<longrightarrow>
         (\<not> on_plane (theGlobalNormal (process (PostStepDoIt self env aTrack aStep))) \<longrightarrow>
               Periodic01 \<in> set (exceptions (PostStepDoIt self env aTrack aStep)))
         \<and> (on_a_periodic_plane (process (PostStepDoIt self env aTrack aStep)) \<and>
             \<not> reflecting_walls self \<longrightarrow>
               theStatus (process (PostStepDoIt self env aTrack aStep)) = Cycling \<and>
               proposedPosition (fParticleChange (process (PostStepDoIt self env aTrack aStep))) =
                 Some (if on_x_and_periodic (process (PostStepDoIt self env aTrack aStep)) then
                         G4ThreeVector
                           (- getX (GetPosition (GetPostStepPoint (effectiveStep env aStep))))
                           (getY (GetPosition (GetPostStepPoint (effectiveStep env aStep))))
                           (getZ (GetPosition (GetPostStepPoint (effectiveStep env aStep))))
                       else if on_y_and_periodic (process (PostStepDoIt self env aTrack aStep)) then
                         G4ThreeVector
                           (getX (GetPosition (GetPostStepPoint (effectiveStep env aStep))))
                           (- getY (GetPosition (GetPostStepPoint (effectiveStep env aStep))))
                           (getZ (GetPosition (GetPostStepPoint (effectiveStep env aStep))))
                       else
                         G4ThreeVector
                           (getX (GetPosition (GetPostStepPoint (effectiveStep env aStep))))
                           (getY (GetPosition (GetPostStepPoint (effectiveStep env aStep))))
                           (- getZ (GetPosition (GetPostStepPoint (effectiveStep env aStep))))))
         \<and> (on_a_periodic_plane (process (PostStepDoIt self env aTrack aStep)) \<and>
             reflecting_walls self \<longrightarrow>
               theStatus (process (PostStepDoIt self env aTrack aStep)) = Reflection \<and>
               proposedMomentumDirection
                 (fParticleChange (process (PostStepDoIt self env aTrack aStep))) =
               Some (unit (vsub (GetMomentumDirection aTrack)
                 (vscale (2 * vdot (GetMomentumDirection aTrack)
                      (theGlobalNormal (process (PostStepDoIt self env aTrack aStep))))
                    (theGlobalNormal (process (PostStepDoIt self env aTrack aStep)))))) \<and>
               proposedPolarization
                 (fParticleChange (process (PostStepDoIt self env aTrack aStep))) =
               Some (unit (vadd (vneg (GetPolarization aTrack))
                 (vscale (2 * vdot (GetPolarization aTrack)
                      (theGlobalNormal (process (PostStepDoIt self env aTrack aStep))))
                    (theGlobalNormal (process (PostStepDoIt self env aTrack aStep)))))))"
    using found_applied [OF assms] by (rule impI)
  show ?thesis by (rule conjI [OF a conjI [OF b conjI [OF c conjI [OF d e]]]])
qed

text \<open>
  The theorem at a daughter of the tagged periodic world: the tag of the mother is found
  and applied, the position is wrapped along X.
\<close>

theorem C5_lookup_witness:
  "fst (findSurface (envWith None skinOnPeriodicWorld (G4ThreeVector 1 0 0) True) inDaughter) =
     Some ''Skin''
   \<and> GetSurface (envWith None skinOnPeriodicWorld (G4ThreeVector 1 0 0) True)
       (GetLogicalVolume (currentVolume inDaughter)) = None
   \<and> proposedPosition (fParticleChange (process
     (PostStepDoIt (newProcess (1 / 10 ^ 9) True True False False)
        (envWith None skinOnPeriodicWorld (G4ThreeVector 1 0 0) True)
        (trackWith 1 (G4ThreeVector 1 0 0) (G4ThreeVector 0 0 0))
        (stepFrom inDaughter fGeomBoundary)))) = Some (G4ThreeVector (- 5) 2 3)"
proof -
  let ?self = "newProcess (1 / 10 ^ 9) True True False False"
  let ?env = "envWith None skinOnPeriodicWorld (G4ThreeVector 1 0 0) True"
  let ?track = "trackWith 1 (G4ThreeVector 1 0 0) (G4ThreeVector 0 0 0)"
  let ?step = "stepFrom inDaughter fGeomBoundary"
  have h1: "GetStepStatus (GetPostStepPoint (effectiveStep ?env ?step)) = fGeomBoundary"
    by (simp add: fixture_defs)
  have h2: "kCarTolerance ?self / 2 < GetStepLength ?track"
    by (simp add: fixture_defs)
  have t: "GetTouchable (GetPreStepPoint (effectiveStep ?env ?step)) = inDaughter"
    by (simp add: fixture_defs)
  have leaf: "GetSurface ?env (GetLogicalVolume (currentVolume inDaughter)) = None"
    by (simp add: fixture_defs geometry_defs)
  have pre: "GetSurface ?env (GetLogicalVolume (currentVolume inDaughter)) = None \<and>
      2 \<le> length (mothers inDaughter) \<and>
      GetSurface ?env (GetLogicalVolume (hd (mothers inDaughter))) \<noteq> None"
    by (simp add: fixture_defs geometry_defs)
  note lookup = C5_lookup [OF h1 h2]
  from conjunct1 [OF conjunct2 [OF lookup], unfolded t, rule_format, OF pre]
  have f: "fst (findSurface ?env inDaughter) = Some ''Skin''"
    by (simp add: fixture_defs geometry_defs)
  have h3: "fst (findSurface ?env (GetTouchable (GetPreStepPoint (effectiveStep ?env ?step)))) \<noteq> None"
    unfolding t f by simp
  have n: "theGlobalNormal (process (PostStepDoIt ?self ?env ?track ?step)) =
      G4ThreeVector (- 1) 0 0"
    unfolding PostStepDoIt_theGlobalNormal [OF h1 h2]
    by (simp add: orientedNormal_def vector_defs fixture_defs)
  have x: "on_x_and_periodic (process (PostStepDoIt ?self ?env ?track ?step)) = True"
    unfolding on_x_and_periodic_def n PostStepDoIt_config by (simp add: fixture_defs)
  have h4: "on_a_periodic_plane (process (PostStepDoIt ?self ?env ?track ?step)) \<and>
      \<not> reflecting_walls ?self"
    unfolding on_a_periodic_plane_def x by (simp add: fixture_defs)
  note applied = mp [OF conjunct2 [OF conjunct2 [OF conjunct2 [OF conjunct2 [OF lookup]]]] h3]
  from mp [OF conjunct1 [OF conjunct2 [OF applied]] h4]
  have p: "proposedPosition (fParticleChange (process (PostStepDoIt ?self ?env ?track ?step))) =
      Some (G4ThreeVector (- 5) 2 3)"
    unfolding x by (simp add: fixture_defs)
  from f leaf p show ?thesis by (intro conjI)
qed

text \<open>
  C5 as stated fails in two places. When the tagged volume is the world: for a daughter
  placed in a tagged world, the mother of the innermost volume carries the only tag, the
  specification's lookup finds it, and the loop of the call does not; the call returns a
  no-op change. The same holds for a daughter of an untagged volume placed in the tagged
  world. And when no volume of the chain is tagged and the navigator reports its normal
  as invalid: the call returns a no-op change, but with the exception PerBoun01 raised.
\<close>

theorem C5_world_not_visited:
  "GetSurface (envWith None skinOnWorld (G4ThreeVector 1 0 0) True)
       (GetLogicalVolume (currentVolume daughterInWorld)) = None
   \<and> mothers daughterInWorld = [worldPV]
   \<and> GetSurface (envWith None skinOnWorld (G4ThreeVector 1 0 0) True)
       (GetLogicalVolume worldPV) = Some ''Skin''
   \<and> spec_lookup (GetSurface (envWith None skinOnWorld (G4ThreeVector 1 0 0) True))
       daughterInWorld = Some ''Skin''
   \<and> fst (findSurface (envWith None skinOnWorld (G4ThreeVector 1 0 0) True) daughterInWorld) =
       None
   \<and> fst (findSurface (envWith None skinOnWorld (G4ThreeVector 1 0 0) True) inDaughter) =
       None
   \<and> noChange (fParticleChange (process
     (PostStepDoIt (newProcess (1 / 10 ^ 9) True True False False)
        (envWith None skinOnWorld (G4ThreeVector 1 0 0) True)
        (trackWith 1 (G4ThreeVector 1 0 0) (G4ThreeVector 0 0 0))
        (stepFrom daughterInWorld fGeomBoundary))))
   \<and> spec_lookup (GetSurface (envWith None noSkin (G4ThreeVector 1 0 0) False))
       inDaughter = None
   \<and> noChange (fParticleChange (process
     (PostStepDoIt (newProcess (1 / 10 ^ 9) True True False False)
        (envWith None noSkin (G4ThreeVector 1 0 0) False)
        (trackWith 1 (G4ThreeVector 1 0 0) (G4ThreeVector 0 0 0))
        (stepFrom inDaughter fGeomBoundary))))
   \<and> exceptions
     (PostStepDoIt (newProcess (1 / 10 ^ 9) True True False False)
        (envWith None noSkin (G4ThreeVector 1 0 0) False)
        (trackWith 1 (G4ThreeVector 1 0 0) (G4ThreeVector 0 0 0))
        (stepFrom inDaughter fGeomBoundary)) = [PerBoun01]"
proof -
  let ?self = "newProcess (1 / 10 ^ 9) True True False False"
  let ?env = "envWith None skinOnWorld (G4ThreeVector 1 0 0) True"
  let ?track = "trackWith 1 (G4ThreeVector 1 0 0) (G4ThreeVector 0 0 0)"
  let ?step = "stepFrom daughterInWorld fGeomBoundary"
  have h1: "GetStepStatus (GetPostStepPoint (effectiveStep ?env ?step)) = fGeomBoundary"
    by (simp add: fixture_defs)
  have h2: "kCarTolerance ?self / 2 < GetStepLength ?track"
    by (simp add: fixture_defs)
  have t: "GetTouchable (GetPreStepPoint (effectiveStep ?env ?step)) = daughterInWorld"
    by (simp add: fixture_defs)
  have a: "GetSurface ?env (GetLogicalVolume (currentVolume daughterInWorld)) = None"
    by (simp add: fixture_defs geometry_defs)
  have b: "mothers daughterInWorld = [worldPV]" by (simp add: geometry_defs)
  have c: "GetSurface ?env (GetLogicalVolume worldPV) = Some ''Skin''"
    by (simp add: fixture_defs geometry_defs)
  have d: "spec_lookup (GetSurface ?env) daughterInWorld = Some ''Skin''"
    by (simp add: spec_lookup_def fixture_defs geometry_defs)
  have e: "fst (findSurface ?env daughterInWorld) = None"
    by (simp add: findSurface_fst fixture_defs geometry_defs)
  have h3: "fst (findSurface ?env (GetTouchable (GetPreStepPoint (effectiveStep ?env ?step)))) = None"
    unfolding t by (rule e)
  have f: "noChange (fParticleChange (process (PostStepDoIt ?self ?env ?track ?step)))"
    unfolding PostStepDoIt_not_found [OF h1 h2 h3]
    by (simp add: noChange_def InitializeForPostStep_def)
  have e': "fst (findSurface ?env inDaughter) = None"
    by (simp add: findSurface_fst fixture_defs geometry_defs)
  let ?env2 = "envWith None noSkin (G4ThreeVector 1 0 0) False"
  let ?step2 = "stepFrom inDaughter fGeomBoundary"
  have k1: "GetStepStatus (GetPostStepPoint (effectiveStep ?env2 ?step2)) = fGeomBoundary"
    by (simp add: fixture_defs)
  have k3: "fst (findSurface ?env2 (GetTouchable (GetPreStepPoint (effectiveStep ?env2 ?step2)))) =
      None"
    by (simp add: findSurface_fst fixture_defs geometry_defs)
  have g: "spec_lookup (GetSurface ?env2) inDaughter = None"
    by (simp add: spec_lookup_def fixture_defs geometry_defs)
  have nc: "noChange (fParticleChange (process (PostStepDoIt ?self ?env2 ?track ?step2)))"
    unfolding PostStepDoIt_not_found [OF k1 h2 k3]
    by (simp add: noChange_def InitializeForPostStep_def)
  have ex: "exceptions (PostStepDoIt ?self ?env2 ?track ?step2) = [PerBoun01]"
    unfolding PostStepDoIt_not_found [OF k1 h2 k3] by (simp add: fixture_defs)
  from a b c d e e' f g nc ex show ?thesis by (intro conjI)
qed

text \<open>
  C9 fails on the code. The step is received by const reference, yet the loop calls
  \<^verbatim>\<open>MoveUpHistory\<close> on the pre-step point's touchable through a cast that
  removes the const qualifier: for a daughter of the tagged periodic world, the touchable
  of the pre-step point is at the daughter before the call and at the periodic world
  after it.
\<close>

theorem C9_touchable_moved:
  "GetTouchable (GetPreStepPoint (stepFrom inDaughter fGeomBoundary)) = inDaughter
   \<and> preStepTouchable
     (PostStepDoIt (newProcess (1 / 10 ^ 9) True True False False)
        (envWith None skinOnPeriodicWorld (G4ThreeVector 1 0 0) True)
        (trackWith 1 (G4ThreeVector 1 0 0) (G4ThreeVector 0 0 0))
        (stepFrom inDaughter fGeomBoundary)) = inPeriodicWorld
   \<and> inPeriodicWorld \<noteq> inDaughter"
proof -
  let ?self = "newProcess (1 / 10 ^ 9) True True False False"
  let ?env = "envWith None skinOnPeriodicWorld (G4ThreeVector 1 0 0) True"
  let ?track = "trackWith 1 (G4ThreeVector 1 0 0) (G4ThreeVector 0 0 0)"
  let ?step = "stepFrom inDaughter fGeomBoundary"
  have h1: "GetStepStatus (GetPostStepPoint (effectiveStep ?env ?step)) = fGeomBoundary"
    by (simp add: fixture_defs)
  have h2: "kCarTolerance ?self / 2 < GetStepLength ?track"
    by (simp add: fixture_defs)
  have t: "GetTouchable (GetPreStepPoint (effectiveStep ?env ?step)) = inDaughter"
    by (simp add: fixture_defs)
  have w: "findSurface ?env inDaughter = (Some ''Skin'', inPeriodicWorld)"
    by (simp add: walk_defs surfaceLoop.simps fixture_defs geometry_defs)
  have h3: "fst (findSurface ?env (GetTouchable (GetPreStepPoint (effectiveStep ?env ?step)))) \<noteq> None"
    unfolding t w by simp
  have a: "GetTouchable (GetPreStepPoint ?step) = inDaughter" by (simp add: fixture_defs)
  have b: "preStepTouchable (PostStepDoIt ?self ?env ?track ?step) = inPeriodicWorld"
    unfolding PostStepDoIt_found [OF h1 h2 h3] onSurface_frame
    by (simp only: atSurfaceTest_fields t w snd_conv)
  have c: "inPeriodicWorld \<noteq> inDaughter" by (simp add: geometry_defs)
  from a b c show ?thesis by (intro conjI)
qed

end
